theory Spec2Isabelle
  imports Complex_Main "HOL-Library.AList" "HOL-Library.Char_ord" "HOL-Library.List_Lexorder"
    "HOL-Library.Word"
begin

section \<open>Python values, exceptions and reported failures\<close>

text \<open>
  The dashboard is Python over pandas and scikit-learn. Numbers are modelled as
  mathematical reals (no rounding), strings as byte lists. The values a form widget of
  \<^verbatim>\<open>render_price_prediction\<close> puts into \<^verbatim>\<open>inputs\<close> are integers
  (\<^verbatim>\<open>st.number_input\<close> with integer bounds) and strings (\<^verbatim>\<open>st.selectbox\<close> over a
  text column).
\<close>

datatype pyval = PyInt int | PyStr string

datatype py_exception = KeyError "string list" | ValueError | TypeError | IndexError

text \<open>
  The source never lets an exception escape from training or prediction: it reports
  through \<^verbatim>\<open>st.warning\<close> or \<^verbatim>\<open>st.error\<close> and returns \<^verbatim>\<open>None\<close>. A failure
  value stands for the report together with the \<^verbatim>\<open>None\<close> result; its constructor
  carries what the message interpolates.
\<close>

datatype failure =
    MissingFeatures string "string list"
  | InsufficientData string nat
  | ModelTrainingError py_exception
  | DataPreparationError py_exception
  | UnknownCategory string pyval
  | PredictionError py_exception

datatype level = Warning | Error

fun level_of :: "failure \<Rightarrow> level" where
  "level_of (MissingFeatures vt fs) = Warning"
| "level_of (InsufficientData vt n) = Warning"
| "level_of (ModelTrainingError e) = Error"
| "level_of (DataPreparationError e) = Error"
| "level_of (UnknownCategory f v) = Warning"
| "level_of (PredictionError e) = Error"

text \<open>Python's \<^verbatim>\<open>str\<close> on the two kinds of input value.\<close>

fun digits_of :: "nat \<Rightarrow> string" where
  "digits_of n =
     (if n < 10 then [char_of (48 + n)]
      else digits_of (n div 10) @ [char_of (48 + n mod 10)])"

declare digits_of.simps [simp del]

fun py_str :: "pyval \<Rightarrow> string" where
  "py_str (PyStr s) = s"
| "py_str (PyInt i) = (if i < 0 then CHR ''-'' # digits_of (nat (- i)) else digits_of (nat i))"

section \<open>scikit-learn's LabelEncoder\<close>

text \<open>
  \<^verbatim>\<open>LabelEncoder.fit\<close> stores the sorted distinct labels in \<^verbatim>\<open>classes_\<close>;
  \<^verbatim>\<open>transform\<close> maps a label to its position there and raises \<^verbatim>\<open>ValueError\<close> on a
  label that is not among them. Python compares strings by code point, which on UTF-8
  bytes is the lexicographic order of the bytes.
\<close>

datatype label_encoder = LabelEncoder (classes: "string list")

fun index_of :: "'a list \<Rightarrow> 'a \<Rightarrow> nat option" where
  "index_of [] y = None"
| "index_of (x # xs) y = (if x = y then Some 0 else map_option Suc (index_of xs y))"

definition fit :: "string list \<Rightarrow> label_encoder" where
  "fit ys = LabelEncoder (sort (remdups ys))"

definition transform :: "label_encoder \<Rightarrow> string \<Rightarrow> py_exception + nat" where
  "transform enc y = (case index_of (classes enc) y of None \<Rightarrow> Inl ValueError | Some c \<Rightarrow> Inr c)"

section \<open>Tables\<close>

text \<open>
  A pandas column read from CSV is either numeric (\<^verbatim>\<open>int64\<close>/\<^verbatim>\<open>float64\<close>) or of dtype
  \<^verbatim>\<open>object\<close> holding strings; \<open>None\<close> is a missing value (NaN). A DataFrame is the
  ordered dictionary of its columns, all of one length.
\<close>

datatype series = Numeric "real option list" | Object "string option list"

type_synonym dataframe = "(string \<times> series) list"

datatype cell = NaN | Num real | Str string

fun cells :: "series \<Rightarrow> cell list" where
  "cells (Numeric xs) = map (\<lambda>x. case x of None \<Rightarrow> NaN | Some v \<Rightarrow> Num v) xs"
| "cells (Object xs) = map (\<lambda>x. case x of None \<Rightarrow> NaN | Some s \<Rightarrow> Str s) xs"

definition slen :: "series \<Rightarrow> nat" where
  "slen s = length (cells s)"

definition columns :: "dataframe \<Rightarrow> string list" where
  "columns df = map fst df"

definition len :: "dataframe \<Rightarrow> nat" where
  "len df = (case df of [] \<Rightarrow> 0 | (c, s) # _ \<Rightarrow> slen s)"

definition rect :: "dataframe \<Rightarrow> bool" where
  "rect df \<longleftrightarrow> list_all (\<lambda>(c, s). slen s = len df) df"

definition df_empty :: "dataframe \<Rightarrow> bool" where
  "df_empty df \<longleftrightarrow> df = [] \<or> len df = 0"

text \<open>The rows of a table, for stating properties of listings.\<close>

definition row_at :: "dataframe \<Rightarrow> nat \<Rightarrow> (string \<times> cell) list" where
  "row_at df i = map (\<lambda>(c, s). (c, cells s ! i)) df"

definition rows :: "dataframe \<Rightarrow> (string \<times> cell) list list" where
  "rows df = map (row_at df) [0..<len df]"

text \<open>A sum type for "returns or raises", with sequencing.\<close>

definition and_then :: "'e + 'a \<Rightarrow> ('a \<Rightarrow> 'e + 'b) \<Rightarrow> 'e + 'b" where
  "and_then r k = (case r of Inl e \<Rightarrow> Inl e | Inr a \<Rightarrow> k a)"

text \<open>\<^verbatim>\<open>df[col]\<close>, \<^verbatim>\<open>df[col] = s\<close>, \<^verbatim>\<open>df[[c1, c2, ...]]\<close> and \<^verbatim>\<open>d[key]\<close> on a dict.\<close>

definition getitem :: "dataframe \<Rightarrow> string \<Rightarrow> py_exception + series" where
  "getitem df col = (case map_of df col of None \<Rightarrow> Inl (KeyError [col]) | Some s \<Rightarrow> Inr s)"

definition setitem :: "dataframe \<Rightarrow> string \<Rightarrow> series \<Rightarrow> dataframe" where
  "setitem df col s = AList.update col s df"

definition project :: "dataframe \<Rightarrow> string list \<Rightarrow> py_exception + dataframe" where
  "project df cols =
     (case filter (\<lambda>c. c \<notin> set (columns df)) cols of
        [] \<Rightarrow> Inr (List.map_filter (\<lambda>c. map_option (Pair c) (map_of df c)) cols)
      | missing \<Rightarrow> Inl (KeyError missing))"

definition dict_get :: "(string \<times> 'v) list \<Rightarrow> string \<Rightarrow> py_exception + 'v" where
  "dict_get d k = (case map_of d k of None \<Rightarrow> Inl (KeyError [k]) | Some v \<Rightarrow> Inr v)"

text \<open>Boolean indexing \<^verbatim>\<open>df[mask]\<close> and \<^verbatim>\<open>head(n)\<close>.\<close>

definition pick :: "bool list \<Rightarrow> 'a list \<Rightarrow> 'a list" where
  "pick keep xs = map fst (filter snd (zip xs keep))"

fun select_series :: "bool list \<Rightarrow> series \<Rightarrow> series" where
  "select_series keep (Numeric xs) = Numeric (pick keep xs)"
| "select_series keep (Object xs) = Object (pick keep xs)"

definition select_rows :: "dataframe \<Rightarrow> bool list \<Rightarrow> dataframe" where
  "select_rows df keep = map (\<lambda>(c, s). (c, select_series keep s)) df"

fun take_series :: "nat \<Rightarrow> series \<Rightarrow> series" where
  "take_series n (Numeric xs) = Numeric (take n xs)"
| "take_series n (Object xs) = Object (take n xs)"

definition head :: "nat \<Rightarrow> dataframe \<Rightarrow> dataframe" where
  "head n df = map (\<lambda>(c, s). (c, take_series n s)) df"

text \<open>
  \<^verbatim>\<open>df.dropna(subset=cols)\<close>: \<^verbatim>\<open>KeyError\<close> on labels that are not columns; otherwise a
  new table with the rows that have no missing value in any of the columns.
\<close>

definition complete_row :: "dataframe \<Rightarrow> string list \<Rightarrow> nat \<Rightarrow> bool" where
  "complete_row df labels i =
     list_all (\<lambda>c. case map_of df c of None \<Rightarrow> False
                    | Some s \<Rightarrow> i < slen s \<and> cells s ! i \<noteq> NaN) labels"

definition dropna :: "dataframe \<Rightarrow> string list \<Rightarrow> py_exception + dataframe" where
  "dropna df labels =
     (case filter (\<lambda>c. c \<notin> set (columns df)) labels of
        [] \<Rightarrow> Inr (select_rows df (map (complete_row df labels) [0..<len df]))
      | missing \<Rightarrow> Inl (KeyError missing))"

section \<open>Binary64 numbers\<close>

text \<open>
  Python's \<^verbatim>\<open>float\<close> and the \<^verbatim>\<open>float64\<close> of numpy are IEEE 754 binary64 numbers. A finite
  one is carried here by the real number it denotes; the two zeros are not told apart.
  Every operation computes the exact real result and rounds it to the nearest binary64
  number, ties to the even significand.

  \<open>exponent x\<close> is the \<open>e\<close> with \<open>2 powi e \<le> \<bar>x\<bar> < 2 powi (e + 1)\<close>, found by
  halving or doubling and kept between \<open>- 1022\<close> and \<open>1023\<close>. \<open>round64 x\<close> divides \<open>x\<close>
  by the spacing \<open>q = 2 powi (e - 52)\<close> of the binary64 numbers around it, which is
  \<open>2 powi (- 1074)\<close> in the subnormal range, rounds the quotient to an integer with
  \<open>rne\<close> and multiplies back; a result of magnitude \<open>2 powi 1024\<close> or more is an
  infinity.
\<close>

datatype float = Finite real | PlusInf | MinusInf | NotANumber

definition rne :: "real \<Rightarrow> int" where
  "rne y = (let f = \<lfloor>y\<rfloor>; d = y - of_int f
            in if d < 1/2 then f else if 1/2 < d then f + 1 else if even f then f else f + 1)"

fun exponent_up :: "nat \<Rightarrow> real \<Rightarrow> int \<Rightarrow> int" where
  "exponent_up 0 x e = e"
| "exponent_up (Suc k) x e = (if 2 \<le> x then exponent_up k (x / 2) (e + 1) else e)"

fun exponent_down :: "nat \<Rightarrow> real \<Rightarrow> int \<Rightarrow> int" where
  "exponent_down 0 x e = e"
| "exponent_down (Suc k) x e = (if x < 1 then exponent_down k (x * 2) (e - 1) else e)"

definition exponent :: "real \<Rightarrow> int" where
  "exponent x =
     (if 1 \<le> \<bar>x\<bar> then exponent_up 1023 \<bar>x\<bar> 0 else exponent_down 1022 \<bar>x\<bar> 0)"

definition round64 :: "real \<Rightarrow> float" where
  "round64 x =
     (let q = 2 powi (exponent x - 52); r = q * of_int (rne (x / q))
      in if 2 powi 1024 \<le> \<bar>r\<bar> then (if 0 < x then PlusInf else MinusInf) else Finite r)"

text \<open>Negation, addition, subtraction and multiplication.\<close>

fun float_neg :: "float \<Rightarrow> float" where
  "float_neg (Finite a) = Finite (- a)"
| "float_neg PlusInf = MinusInf"
| "float_neg MinusInf = PlusInf"
| "float_neg NotANumber = NotANumber"

fun float_add :: "float \<Rightarrow> float \<Rightarrow> float" where
  "float_add (Finite a) (Finite b) = round64 (a + b)"
| "float_add NotANumber y = NotANumber"
| "float_add x NotANumber = NotANumber"
| "float_add (Finite a) y = y"
| "float_add x (Finite b) = x"
| "float_add PlusInf PlusInf = PlusInf"
| "float_add MinusInf MinusInf = MinusInf"
| "float_add PlusInf MinusInf = NotANumber"
| "float_add MinusInf PlusInf = NotANumber"

definition float_sub :: "float \<Rightarrow> float \<Rightarrow> float" where
  "float_sub x y = float_add x (float_neg y)"

fun float_mul :: "float \<Rightarrow> float \<Rightarrow> float" where
  "float_mul (Finite a) (Finite b) = round64 (a * b)"
| "float_mul NotANumber y = NotANumber"
| "float_mul x NotANumber = NotANumber"
| "float_mul (Finite a) y =
     (if a = 0 then NotANumber else if (0 < a) = (y = PlusInf) then PlusInf else MinusInf)"
| "float_mul x (Finite b) =
     (if b = 0 then NotANumber else if (0 < b) = (x = PlusInf) then PlusInf else MinusInf)"
| "float_mul PlusInf PlusInf = PlusInf"
| "float_mul MinusInf MinusInf = PlusInf"
| "float_mul PlusInf MinusInf = MinusInf"
| "float_mul MinusInf PlusInf = MinusInf"

text \<open>Division by the scalar 2, and the comparisons, which are false on a NaN.\<close>

fun halve :: "float \<Rightarrow> float" where
  "halve (Finite a) = round64 (a / 2)"
| "halve x = x"

fun float_less :: "float \<Rightarrow> float \<Rightarrow> bool" where
  "float_less (Finite a) (Finite b) = (a < b)"
| "float_less NotANumber y = False"
| "float_less x NotANumber = False"
| "float_less x MinusInf = False"
| "float_less PlusInf y = False"
| "float_less MinusInf y = True"
| "float_less x PlusInf = True"

fun float_le :: "float \<Rightarrow> float \<Rightarrow> bool" where
  "float_le (Finite a) (Finite b) = (a \<le> b)"
| "float_le NotANumber y = False"
| "float_le x NotANumber = False"
| "float_le MinusInf y = True"
| "float_le x PlusInf = True"
| "float_le x MinusInf = False"
| "float_le PlusInf y = False"

section \<open>The predictor\<close>

text \<open>
  The fitted regressor is an object of scikit-learn, opaque here: what the source uses of
  it is \<^verbatim>\<open>predict\<close> and \<^verbatim>\<open>score\<close>, each of which may raise.
\<close>

record regressor =
  predict :: "dataframe \<Rightarrow> py_exception + real list"
  score :: "dataframe \<Rightarrow> series \<Rightarrow> py_exception + real"

text \<open>\<^verbatim>\<open>pd.DataFrame([input_data])\<close>: one row, one column per key in insertion order.\<close>

fun cell_series :: "pyval \<Rightarrow> series" where
  "cell_series (PyInt i) = Numeric [Some (of_int i)]"
| "cell_series (PyStr s) = Object [Some s]"

definition one_row_frame :: "(string \<times> pyval) list \<Rightarrow> dataframe" where
  "one_row_frame input_data = map (\<lambda>(k, v). (k, cell_series v)) input_data"

text \<open>
  The loop of \<^verbatim>\<open>predict_price\<close> over \<^verbatim>\<open>model_features\<close>. A key missing from
  \<^verbatim>\<open>inputs\<close> raises \<^verbatim>\<open>KeyError\<close>, which only the outer handler catches; the
  \<^verbatim>\<open>ValueError\<close> of \<^verbatim>\<open>transform\<close> is caught by the inner handler.
\<close>

fun encode_inputs ::
  "(string \<times> label_encoder) list \<Rightarrow> (string \<times> pyval) list \<Rightarrow> string list \<Rightarrow>
   (string \<times> pyval) list \<Rightarrow> failure + (string \<times> pyval) list" where
  "encode_inputs encoders inputs [] input_data = Inr input_data"
| "encode_inputs encoders inputs (feature # rest) input_data =
     (case map_of encoders feature of
        Some enc \<Rightarrow>
          (case map_of inputs feature of
             None \<Rightarrow> Inl (PredictionError (KeyError [feature]))
           | Some v \<Rightarrow>
               (case transform enc (py_str v) of
                  Inl e \<Rightarrow> Inl (UnknownCategory feature v)
                | Inr code \<Rightarrow>
                    encode_inputs encoders inputs rest
                      (AList.update feature (PyInt (int code)) input_data)))
      | None \<Rightarrow>
          (case map_of inputs feature of
             None \<Rightarrow> Inl (PredictionError (KeyError [feature]))
           | Some v \<Rightarrow>
               encode_inputs encoders inputs rest (AList.update feature v input_data)))"

definition predict_price ::
  "regressor \<Rightarrow> (string \<times> label_encoder) list \<Rightarrow> string list \<Rightarrow> (string \<times> pyval) list \<Rightarrow>
   failure + real" where
  "predict_price prediction_model encoders model_features inputs =
     (case encode_inputs encoders inputs model_features [] of
        Inl f \<Rightarrow> Inl f
      | Inr input_data \<Rightarrow>
          (case predict prediction_model (one_row_frame input_data) of
             Inl e \<Rightarrow> Inl (PredictionError e)
           | Inr ys \<Rightarrow>
               (case ys of
                  [] \<Rightarrow> Inl (PredictionError IndexError)
                | predicted_price # _ \<Rightarrow> Inr predicted_price)))"

text \<open>
  Lines 146 to 161 of \<^verbatim>\<open>render_price_prediction\<close>: the point estimate with the
  suggested price range around it. The literal \<^verbatim>\<open>0.15\<close> is the binary64 number nearest to
  0.15, and the difference, the sum and the two products are binary64 operations.
\<close>

record prediction_result =
  point_estimate :: real
  lower_bound :: float
  upper_bound :: float

definition price_range :: "real \<Rightarrow> prediction_result" where
  "price_range predicted_price =
     (let confidence_range = round64 0.15 in
      \<lparr>point_estimate = predicted_price,
       lower_bound = float_mul (Finite predicted_price) (float_sub (Finite 1) confidence_range),
       upper_bound = float_mul (Finite predicted_price) (float_add (Finite 1) confidence_range)\<rparr>)"

definition predict_with_range ::
  "regressor \<Rightarrow> (string \<times> label_encoder) list \<Rightarrow> string list \<Rightarrow> (string \<times> pyval) list \<Rightarrow>
   failure + prediction_result" where
  "predict_with_range prediction_model encoders model_features inputs =
     (case predict_price prediction_model encoders model_features inputs of
        Inl f \<Rightarrow> Inl f
      | Inr predicted_price \<Rightarrow> Inr (price_range predicted_price))"

section \<open>Training\<close>

text \<open>
  The two scikit-learn entry points that draw pseudo-random numbers. Each takes the
  ambient generator state \<open>'g\<close> (NumPy's global generator, different from run to run) and
  the \<^verbatim>\<open>random_state\<close> argument; the source passes \<^verbatim>\<open>random_state=42\<close> to both.
\<close>

record 'g sklearn =
  train_test_split ::
    "'g \<Rightarrow> dataframe \<Rightarrow> series \<Rightarrow> real \<Rightarrow> nat option \<Rightarrow>
     py_exception + (dataframe \<times> dataframe \<times> series \<times> series)"
  RandomForestRegressor_fit ::
    "'g \<Rightarrow> nat \<Rightarrow> nat option \<Rightarrow> dataframe \<Rightarrow> series \<Rightarrow> py_exception + regressor"

text \<open>
  What a successful training returns: the tuple \<^verbatim>\<open>model, le_dict, train_score,
  test_score, features\<close>.
\<close>

record trained =
  model :: regressor
  label_encoders :: "(string \<times> label_encoder) list"
  train_score :: real
  test_score :: real
  schema :: "string list"

text \<open>
  The contract of scikit-learn that the source relies on: called with an integer
  \<^verbatim>\<open>random_state\<close>, neither function consults the ambient generator.
\<close>

definition reproducible :: "'g sklearn \<Rightarrow> bool" where
  "reproducible lib \<longleftrightarrow>
     (\<forall>g g' X y test_size seed.
        train_test_split lib g X y test_size (Some seed)
          = train_test_split lib g' X y test_size (Some seed)) \<and>
     (\<forall>g g' n seed X y.
        RandomForestRegressor_fit lib g n (Some seed) X y
          = RandomForestRegressor_fit lib g' n (Some seed) X y)"

definition features_for :: "string \<Rightarrow> string list" where
  "features_for vehicle_type =
     (if vehicle_type = ''car''
      then [''make'', ''model'', ''year'', ''mileage_avg'', ''transmission'', ''fuel_type'']
      else [''make'', ''model'', ''year''])"

text \<open>
  \<^verbatim>\<open>astype(str)\<close> on an object column, and \<^verbatim>\<open>fit_transform\<close>, which returns for each
  label its position among the sorted distinct labels.
\<close>

definition astype_str :: "string option list \<Rightarrow> string list" where
  "astype_str xs = map (\<lambda>x. case x of None \<Rightarrow> ''nan'' | Some s \<Rightarrow> s) xs"

definition fit_transform :: "string list \<Rightarrow> label_encoder \<times> nat list" where
  "fit_transform ys =
     (let enc = fit ys
      in (enc, map (\<lambda>y. length (takeWhile (\<lambda>c. c \<noteq> y) (classes enc))) ys))"

text \<open>The loop over \<^verbatim>\<open>features\<close> that encodes the columns of dtype \<^verbatim>\<open>object\<close>.\<close>

fun encode_columns ::
  "dataframe \<Rightarrow> (string \<times> label_encoder) list \<Rightarrow> string list \<Rightarrow>
   py_exception + dataframe \<times> (string \<times> label_encoder) list" where
  "encode_columns model_df le_dict [] = Inr (model_df, le_dict)"
| "encode_columns model_df le_dict (col # rest) =
     (case map_of model_df col of
        None \<Rightarrow> Inl (KeyError [col])
      | Some (Numeric xs) \<Rightarrow> encode_columns model_df le_dict rest
      | Some (Object xs) \<Rightarrow>
          (let (enc, codes) = fit_transform (astype_str xs)
           in encode_columns
                (setitem model_df col (Numeric (map (\<lambda>c. Some (real c)) codes)))
                (AList.update col enc le_dict) rest))"

text \<open>Lines 41 to 61: split, fit and score.\<close>

definition fit_and_score ::
  "'g sklearn \<Rightarrow> 'g \<Rightarrow> dataframe \<Rightarrow> (string \<times> label_encoder) list \<Rightarrow> string list \<Rightarrow>
   failure + trained" where
  "fit_and_score lib g model_df le_dict features =
     (case and_then (project model_df features) (\<lambda>X.
           and_then (getitem model_df ''price'') (\<lambda>y.
           train_test_split lib g X y 0.2 (Some 42))) of
        Inl e \<Rightarrow> Inl (DataPreparationError e)
      | Inr (X_train, X_test, y_train, y_test) \<Rightarrow>
          (case and_then (RandomForestRegressor_fit lib g 100 (Some 42) X_train y_train) (\<lambda>m.
                and_then (score m X_train y_train) (\<lambda>tr.
                and_then (score m X_test y_test) (\<lambda>te.
                Inr \<lparr>model = m, label_encoders = le_dict, train_score = tr, test_score = te,
                     schema = features\<rparr>))) of
             Inl e \<Rightarrow> Inl (ModelTrainingError e)
           | Inr t \<Rightarrow> Inr t))"

text \<open>
  \<^verbatim>\<open>train_price_prediction_model\<close>. \<^verbatim>\<open>df.copy()\<close> yields a table equal to \<^verbatim>\<open>df\<close>;
  the version over a store of table objects follows below.
\<close>

definition train_price_prediction_model ::
  "'g sklearn \<Rightarrow> 'g \<Rightarrow> dataframe \<Rightarrow> string \<Rightarrow> failure + trained" where
  "train_price_prediction_model lib g df vehicle_type =
     (let model_df = df;
          features = features_for vehicle_type;
          missing_features = filter (\<lambda>f. f \<notin> set (columns model_df)) features
      in if missing_features \<noteq> [] then Inl (MissingFeatures vehicle_type missing_features)
         else
           (case dropna model_df (features @ [''price'']) of
              Inl e \<Rightarrow> Inl (DataPreparationError e)
            | Inr model_df \<Rightarrow>
                if len model_df < 100
                then Inl (InsufficientData vehicle_type (len model_df))
                else
                  (case encode_columns model_df [] features of
                     Inl e \<Rightarrow> Inl (DataPreparationError e)
                   | Inr (model_df, le_dict) \<Rightarrow>
                       fit_and_score lib g model_df le_dict features)))"

subsection \<open>Training over a store of table objects\<close>

text \<open>
  Python variables hold references. The store is the list of the DataFrame objects
  allocated so far and a reference is an index into it. \<^verbatim>\<open>df.copy()\<close> and
  \<^verbatim>\<open>dropna\<close> allocate a new object; \<^verbatim>\<open>model_df[col] = ...\<close> writes into the object
  that \<^verbatim>\<open>model_df\<close> refers to; the selection \<^verbatim>\<open>model_df[features]\<close> is a new object
  too.
\<close>

type_synonym store = "dataframe list"

definition alloc :: "store \<Rightarrow> dataframe \<Rightarrow> nat \<times> store" where
  "alloc h d = (length h, h @ [d])"

fun encode_columns_store ::
  "store \<Rightarrow> nat \<Rightarrow> (string \<times> label_encoder) list \<Rightarrow> string list \<Rightarrow>
   (py_exception + (string \<times> label_encoder) list) \<times> store" where
  "encode_columns_store h model_df le_dict [] = (Inr le_dict, h)"
| "encode_columns_store h model_df le_dict (col # rest) =
     (case map_of (h ! model_df) col of
        None \<Rightarrow> (Inl (KeyError [col]), h)
      | Some (Numeric xs) \<Rightarrow> encode_columns_store h model_df le_dict rest
      | Some (Object xs) \<Rightarrow>
          (let (enc, codes) = fit_transform (astype_str xs)
           in encode_columns_store
                (h[model_df := setitem (h ! model_df) col (Numeric (map (\<lambda>c. Some (real c)) codes))])
                model_df (AList.update col enc le_dict) rest))"

definition train_price_prediction_model_store ::
  "'g sklearn \<Rightarrow> 'g \<Rightarrow> store \<Rightarrow> nat \<Rightarrow> string \<Rightarrow> (failure + trained) \<times> store" where
  "train_price_prediction_model_store lib g h df vehicle_type =
     (let (model_df, h) = alloc h (h ! df);
          features = features_for vehicle_type;
          missing_features = filter (\<lambda>f. f \<notin> set (columns (h ! model_df))) features
      in if missing_features \<noteq> [] then (Inl (MissingFeatures vehicle_type missing_features), h)
         else
           (case dropna (h ! model_df) (features @ [''price'']) of
              Inl e \<Rightarrow> (Inl (DataPreparationError e), h)
            | Inr cleaned \<Rightarrow>
                (let (model_df, h) = alloc h cleaned
                 in if len (h ! model_df) < 100
                    then (Inl (InsufficientData vehicle_type (len (h ! model_df))), h)
                    else
                      (case encode_columns_store h model_df [] features of
                         (Inl e, h) \<Rightarrow> (Inl (DataPreparationError e), h)
                       | (Inr le_dict, h) \<Rightarrow>
                           (case project (h ! model_df) features of
                              Inl e \<Rightarrow> (Inl (DataPreparationError e), h)
                            | Inr X \<Rightarrow>
                                (let (X_ref, h') = alloc h X
                                 in (fit_and_score lib g (h' ! model_df) le_dict features, h')))))))"

section \<open>Similar listings\<close>

text \<open>
  Lines 165 to 185 and 199 to 200 of \<^verbatim>\<open>render_price_prediction\<close>. No handler
  surrounds them, so an exception raised here leaves the function.
\<close>

fun cell_eq :: "cell \<Rightarrow> pyval \<Rightarrow> bool" where
  "cell_eq (Str s) (PyStr t) = (s = t)"
| "cell_eq (Num v) (PyInt i) = (v = of_int i)"
| "cell_eq c v = False"

definition series_eq :: "series \<Rightarrow> pyval \<Rightarrow> bool list" where
  "series_eq s v = map (\<lambda>c. cell_eq c v) (cells s)"

fun cell_between :: "real \<Rightarrow> real \<Rightarrow> cell \<Rightarrow> bool" where
  "cell_between lo hi (Num v) = (lo \<le> v \<and> v \<le> hi)"
| "cell_between lo hi c = False"

text \<open>Ordering a string against a number raises \<^verbatim>\<open>TypeError\<close>.\<close>

definition between :: "series \<Rightarrow> real \<Rightarrow> real \<Rightarrow> py_exception + bool list" where
  "between s lo hi =
     (if list_ex (\<lambda>c. case c of Str _ \<Rightarrow> True | _ \<Rightarrow> False) (cells s) then Inl TypeError
      else Inr (map (cell_between lo hi) (cells s)))"

fun py_add :: "pyval \<Rightarrow> int \<Rightarrow> py_exception + real" where
  "py_add (PyInt i) k = Inr (of_int (i + k))"
| "py_add (PyStr s) k = Inl TypeError"

definition mask_and :: "bool list \<Rightarrow> bool list \<Rightarrow> bool list" where
  "mask_and xs ys = map2 (\<and>) xs ys"

definition similar_filter ::
  "dataframe \<Rightarrow> string \<Rightarrow> string list \<Rightarrow> (string \<times> pyval) list \<Rightarrow> py_exception + bool list" where
  "similar_filter df vehicle_type features inputs =
     and_then (getitem df ''make'') (\<lambda>make_col.
     and_then (dict_get inputs ''make'') (\<lambda>make_in.
     and_then (getitem df ''model'') (\<lambda>model_col.
     and_then (dict_get inputs ''model'') (\<lambda>model_in.
     and_then (getitem df ''year'') (\<lambda>year_col.
     and_then (dict_get inputs ''year'') (\<lambda>year_in.
     and_then (py_add year_in (- 2)) (\<lambda>year_lo.
     and_then (py_add year_in 2) (\<lambda>year_hi.
     and_then (between year_col year_lo year_hi) (\<lambda>year_ok.
     (let filt = mask_and (mask_and (series_eq make_col make_in) (series_eq model_col model_in))
                   year_ok
      in if vehicle_type = ''car'' \<and> ''mileage_avg'' \<in> set features
         then
           and_then (getitem df ''mileage_avg'') (\<lambda>mileage_col.
           and_then (dict_get inputs ''mileage_avg'') (\<lambda>mileage_in.
           and_then (py_add mileage_in (- 20000)) (\<lambda>mileage_lo.
           and_then (py_add mileage_in 20000) (\<lambda>mileage_hi.
           and_then (between mileage_col mileage_lo mileage_hi) (\<lambda>mileage_ok.
           Inr (mask_and filt mileage_ok))))))
         else Inr filt))))))))))"

datatype similar_outcome = NoSimilarListings | SimilarListings dataframe

definition display_cols :: "string \<Rightarrow> string list" where
  "display_cols vehicle_type =
     [''make'', ''model'', ''year'', ''price'', ''ad_url''] @
     (if vehicle_type = ''car'' then [''mileage_avg'', ''transmission'', ''fuel_type''] else [])"

definition similar_listings ::
  "dataframe \<Rightarrow> string \<Rightarrow> string list \<Rightarrow> (string \<times> pyval) list \<Rightarrow>
   py_exception + similar_outcome" where
  "similar_listings df vehicle_type features inputs =
     and_then (similar_filter df vehicle_type features inputs) (\<lambda>filt.
     (let similar_vehicles = select_rows df filt
      in if \<not> df_empty similar_vehicles
         then and_then (project similar_vehicles (display_cols vehicle_type)) (\<lambda>shown.
              Inr (SimilarListings (head 5 shown)))
         else Inr NoSimilarListings))"

subsection \<open>The matching rule on a listing\<close>

text \<open>
  The rule as the specification words it, on one row of the table: make and model equal
  to the supplied ones, year within 2 of the supplied year and, for cars, average mileage
  within 20000 of the supplied mileage, the ends included.
\<close>

fun cell_of :: "pyval \<Rightarrow> cell" where
  "cell_of (PyStr s) = Str s"
| "cell_of (PyInt i) = Num (of_int i)"

definition comparable ::
  "string \<Rightarrow> pyval \<Rightarrow> pyval \<Rightarrow> int \<Rightarrow> int \<Rightarrow> (string \<times> cell) list \<Rightarrow> bool" where
  "comparable vehicle_type make_in model_in year_in mileage_in listing \<longleftrightarrow>
     map_of listing ''make'' = Some (cell_of make_in) \<and>
     map_of listing ''model'' = Some (cell_of model_in) \<and>
     (case map_of listing ''year'' of
        Some (Num v) \<Rightarrow> of_int year_in - 2 \<le> v \<and> v \<le> of_int year_in + 2
      | _ \<Rightarrow> False) \<and>
     (vehicle_type = ''car'' \<longrightarrow>
        (case map_of listing ''mileage_avg'' of
           Some (Num w) \<Rightarrow> of_int mileage_in - 20000 \<le> w \<and> w \<le> of_int mileage_in + 20000
         | _ \<Rightarrow> False))"

text \<open>The cells of a listing under the given columns, and the listings of an outcome.\<close>

definition project_row :: "string list \<Rightarrow> (string \<times> cell) list \<Rightarrow> (string \<times> cell) list" where
  "project_row cols listing = List.map_filter (\<lambda>c. map_option (Pair c) (map_of listing c)) cols"

fun listings_of :: "similar_outcome \<Rightarrow> (string \<times> cell) list list" where
  "listings_of NoSimilarListings = []"
| "listings_of (SimilarListings shown) = rows shown"

section \<open>The dataset loader\<close>

text \<open>
  How pandas computes with a column depends on its dtype, so the tables of the loader
  and of the pages carry it. A column that \<^verbatim>\<open>read_csv\<close> could read as numbers is
  \<^verbatim>\<open>int64\<close> when every cell is a whole number and \<^verbatim>\<open>float64\<close> otherwise, an empty cell
  being NaN; any other column has dtype \<^verbatim>\<open>object\<close> and holds strings and missing cells.
  An \<^verbatim>\<open>int64\<close> is a 64-bit word read as a signed number, so its arithmetic wraps.
\<close>

datatype number = IntNum "64 word" | FloatNum float

datatype numeric = Int64 "64 word list" | Float64 "float list"

datatype column = Number numeric | Text "string option list"

type_synonym table = "(string \<times> column) list"

fun numbers :: "numeric \<Rightarrow> number list" where
  "numbers (Int64 ws) = map IntNum ws"
| "numbers (Float64 fs) = map FloatNum fs"

text \<open>The number a cell holds, and the binary64 number it converts to.\<close>

fun value_of :: "number \<Rightarrow> float" where
  "value_of (IntNum w) = Finite (of_int (sint w))"
| "value_of (FloatNum f) = f"

definition values_of :: "numeric \<Rightarrow> float list" where
  "values_of a = map value_of (numbers a)"

definition int64_to_float :: "64 word \<Rightarrow> float" where
  "int64_to_float w = round64 (of_int (sint w))"

fun as_float64 :: "numeric \<Rightarrow> float list" where
  "as_float64 (Int64 ws) = map int64_to_float ws"
| "as_float64 (Float64 fs) = fs"

fun column_len :: "column \<Rightarrow> nat" where
  "column_len (Number a) = length (numbers a)"
| "column_len (Text xs) = length xs"

definition table_empty :: "table \<Rightarrow> bool" where
  "table_empty df = (case df of [] \<Rightarrow> True | (c, s) # _ \<Rightarrow> column_len s = 0)"

text \<open>Boolean indexing \<^verbatim>\<open>df[mask]\<close> keeps the dtype of every column.\<close>

fun filter_numeric :: "bool list \<Rightarrow> numeric \<Rightarrow> numeric" where
  "filter_numeric keep (Int64 ws) = Int64 (pick keep ws)"
| "filter_numeric keep (Float64 fs) = Float64 (pick keep fs)"

fun filter_column :: "bool list \<Rightarrow> column \<Rightarrow> column" where
  "filter_column keep (Number a) = Number (filter_numeric keep a)"
| "filter_column keep (Text xs) = Text (pick keep xs)"

definition filter_rows :: "bool list \<Rightarrow> table \<Rightarrow> table" where
  "filter_rows keep df = map (\<lambda>(c, s). (c, filter_column keep s)) df"

text \<open>
  Comparison of a cell with a Python \<^verbatim>\<open>int\<close>. The integers the source compares with
  (price and year limits, slider positions, bin edges) are below \<open>2 ^ 53\<close> in magnitude,
  so they are binary64 numbers themselves.
\<close>

fun number_lt :: "number \<Rightarrow> int \<Rightarrow> bool" where
  "number_lt (IntNum w) n = (sint w < n)"
| "number_lt (FloatNum f) n = float_less f (Finite (of_int n))"

fun number_gt :: "number \<Rightarrow> int \<Rightarrow> bool" where
  "number_gt (IntNum w) n = (n < sint w)"
| "number_gt (FloatNum f) n = float_less (Finite (of_int n)) f"

fun number_le :: "number \<Rightarrow> int \<Rightarrow> bool" where
  "number_le (IntNum w) n = (sint w \<le> n)"
| "number_le (FloatNum f) n = float_le f (Finite (of_int n))"

fun number_ge :: "number \<Rightarrow> int \<Rightarrow> bool" where
  "number_ge (IntNum w) n = (n \<le> sint w)"
| "number_ge (FloatNum f) n = float_le (Finite (of_int n)) f"

fun notna :: "numeric \<Rightarrow> bool list" where
  "notna (Int64 ws) = map (\<lambda>w. True) ws"
| "notna (Float64 fs) = map (\<lambda>f. f \<noteq> NotANumber) fs"

text \<open>
  \<^verbatim>\<open>pd.to_numeric(errors='coerce')\<close> leaves a numeric column as it is and parses the
  strings of an object column; the parser of number literals is the parameter
  \<open>parse\<close>. The result is \<^verbatim>\<open>int64\<close> when every cell parses as an integer and
  \<^verbatim>\<open>float64\<close> otherwise, with NaN for a missing cell and for a string that does not
  parse.
\<close>

fun all_ints :: "number option list \<Rightarrow> 64 word list option" where
  "all_ints [] = Some []"
| "all_ints (Some (IntNum w) # ps) = map_option ((#) w) (all_ints ps)"
| "all_ints (p # ps) = None"

fun coerce :: "number option \<Rightarrow> float" where
  "coerce None = NotANumber"
| "coerce (Some (IntNum w)) = int64_to_float w"
| "coerce (Some (FloatNum f)) = f"

definition to_numeric :: "(string \<Rightarrow> number option) \<Rightarrow> column \<Rightarrow> numeric" where
  "to_numeric parse c =
     (case c of
        Number a \<Rightarrow> a
      | Text xs \<Rightarrow>
          (let ps = map (\<lambda>x. Option.bind x parse) xs
           in case all_ints ps of Some ws \<Rightarrow> Int64 ws | None \<Rightarrow> Float64 (map coerce ps)))"

text \<open>
  Arithmetic on columns. The sum of two \<^verbatim>\<open>int64\<close> columns is \<^verbatim>\<open>int64\<close> and wraps; any
  other sum is taken in binary64 after converting the \<^verbatim>\<open>int64\<close> operand. True division
  converts to binary64 first.
\<close>

fun add_numeric :: "numeric \<Rightarrow> numeric \<Rightarrow> numeric" where
  "add_numeric (Int64 xs) (Int64 ys) = Int64 (map2 (+) xs ys)"
| "add_numeric a b = Float64 (map2 float_add (as_float64 a) (as_float64 b))"

definition div2 :: "numeric \<Rightarrow> float list" where
  "div2 a = map halve (as_float64 a)"

fun rsub :: "int \<Rightarrow> numeric \<Rightarrow> numeric" where
  "rsub n (Int64 ws) = Int64 (map (\<lambda>w. of_int n - w) ws)"
| "rsub n (Float64 fs) = Float64 (map (\<lambda>f. float_sub (Finite (of_int n)) f) fs)"

text \<open>
  \<^verbatim>\<open>process_vehicle_data\<close>, which writes into the table it is given. \<^verbatim>\<open>None\<close> stands
  for an exception.
\<close>

definition process_vehicle_data ::
  "(string \<Rightarrow> number option) \<Rightarrow> int \<Rightarrow> table \<Rightarrow> table option" where
  "process_vehicle_data parse current_year df =
     (case map_of df ''year'' of
        Some (Number year) \<Rightarrow>
          (let df = AList.update ''age'' (Number (rsub current_year year)) df
           in case (map_of df ''mileage_min'', map_of df ''mileage_max'') of
                (Some lo, Some hi) \<Rightarrow>
                  (let mileage_min = to_numeric parse lo;
                       df = AList.update ''mileage_min'' (Number mileage_min) df;
                       mileage_max = to_numeric parse hi;
                       df = AList.update ''mileage_max'' (Number mileage_max) df
                   in Some (AList.update ''mileage_avg''
                              (Number (Float64 (div2 (add_numeric mileage_min mileage_max)))) df))
              | _ \<Rightarrow> Some df)
      | _ \<Rightarrow> None)"

text \<open>
  The two loaders, from what \<^verbatim>\<open>read_csv\<close> returned (\<^verbatim>\<open>None\<close> when it raised). Any
  exception is caught and an empty table returned in its place. \<^verbatim>\<open>astype(int)\<close>
  truncates and raises on a value that is not finite.
\<close>

definition listing_mask :: "numeric \<Rightarrow> numeric \<Rightarrow> int \<Rightarrow> int \<Rightarrow> bool list" where
  "listing_mask price year limit current_year =
     mask_and (map (\<lambda>p. number_gt p 0) (numbers price))
    (mask_and (map (\<lambda>p. number_lt p limit) (numbers price))
    (mask_and (notna year)
    (mask_and (map (\<lambda>y. number_ge y 1900) (numbers year))
              (map (\<lambda>y. number_le y current_year) (numbers year)))))"

fun float_to_int64 :: "float \<Rightarrow> 64 word option" where
  "float_to_int64 (Finite r) = Some (of_int (if 0 \<le> r then \<lfloor>r\<rfloor> else \<lceil>r\<rceil>))"
| "float_to_int64 x = None"

fun astype_int :: "numeric \<Rightarrow> 64 word list option" where
  "astype_int (Int64 ws) = Some ws"
| "astype_int (Float64 fs) = those (map float_to_int64 fs)"

definition load_car_data ::
  "(string \<Rightarrow> number option) \<Rightarrow> int \<Rightarrow> table option \<Rightarrow> table" where
  "load_car_data parse current_year csv =
     (case csv of
        None \<Rightarrow> []
      | Some df \<Rightarrow>
          (case map_of df ''price'' of
             None \<Rightarrow> []
           | Some p \<Rightarrow>
               (let price = to_numeric parse p;
                    df = AList.update ''price'' (Number price) df
                in case map_of df ''year'' of
                     None \<Rightarrow> []
                   | Some y \<Rightarrow>
                       (let year = to_numeric parse y;
                            df = AList.update ''year'' (Number year) df;
                            keep = listing_mask price year 1000000 current_year;
                            df = filter_rows keep df
                        in case astype_int (filter_numeric keep year) of
                             None \<Rightarrow> []
                           | Some year_int \<Rightarrow>
                               (case process_vehicle_data parse current_year
                                       (AList.update ''year'' (Number (Int64 year_int)) df) of
                                  None \<Rightarrow> []
                                | Some df \<Rightarrow> df)))))"

definition load_motorcycle_data ::
  "(string \<Rightarrow> number option) \<Rightarrow> int \<Rightarrow> table option \<Rightarrow> table" where
  "load_motorcycle_data parse current_year csv =
     (case csv of
        None \<Rightarrow> []
      | Some df \<Rightarrow>
          (case map_of df ''price'' of
             None \<Rightarrow> []
           | Some p \<Rightarrow>
               (let price = to_numeric parse p;
                    df = AList.update ''price'' (Number price) df
                in case map_of df ''year'' of
                     None \<Rightarrow> []
                   | Some y \<Rightarrow>
                       (let year = to_numeric parse y;
                            df = AList.update ''year'' (Number year) df;
                            keep = listing_mask price year 100000 current_year;
                            df = filter_rows keep df
                        in case process_vehicle_data parse current_year df of
                             None \<Rightarrow> []
                           | Some df \<Rightarrow> df))))"

section \<open>The pages before the price prediction\<close>

text \<open>
  \<^verbatim>\<open>main\<close> filters the loaded table by the sidebar and hands the same table object to
  the four pages in turn; the first three write columns into it. Drawing and the
  statistics computed only for display are opaque: \<open>draws u part df\<close> tells whether
  that part of the source completes on the table. When it does not, the exception ends
  the script run and the later pages are not reached; \<^verbatim>\<open>None\<close> stands for that.
\<close>

record ui =
  draws :: "string \<Rightarrow> table \<Rightarrow> bool"
  str_lower :: "string \<Rightarrow> string"

record sidebar =
  price_slider :: "int \<times> int"
  year_slider :: "int \<times> int"
  selected_makes :: "string list"

definition between_ints :: "numeric \<Rightarrow> int \<times> int \<Rightarrow> bool list" where
  "between_ints a r = map (\<lambda>x. number_ge x (fst r) \<and> number_le x (snd r)) (numbers a)"

fun isin :: "column \<Rightarrow> string list \<Rightarrow> bool list" where
  "isin (Text xs) vs = map (\<lambda>x. case x of None \<Rightarrow> False | Some s \<Rightarrow> s \<in> set vs) xs"
| "isin (Number a) vs = map (\<lambda>x. False) (numbers a)"

definition apply_filters :: "sidebar \<Rightarrow> table \<Rightarrow> table option" where
  "apply_filters s df =
     (case (map_of df ''price'', map_of df ''year'') of
        (Some (Number price), Some (Number year)) \<Rightarrow>
          (let filtered_df =
                 filter_rows (mask_and (between_ints price (price_slider s))
                                       (between_ints year (year_slider s))) df
           in if selected_makes s \<noteq> []
              then (case map_of filtered_df ''make'' of
                      None \<Rightarrow> None
                    | Some makes \<Rightarrow> Some (filter_rows (isin makes (selected_makes s)) filtered_df))
              else Some filtered_df)
      | _ \<Rightarrow> None)"

text \<open>\<^verbatim>\<open>utils/constants.py\<close>.\<close>

definition create_price_segment :: "number \<Rightarrow> string" where
  "create_price_segment price =
     (if number_lt price 25000 then ''Budget (< RM25k)''
      else if number_lt price 50000 then ''Entry Level (RM25k-50k)''
      else if number_lt price 100000 then ''Mid Range (RM50k-100k)''
      else if number_lt price 200000 then ''Premium (RM100k-200k)''
      else ''Luxury (> RM200k)'')"

definition create_motorcycle_price_segment :: "number \<Rightarrow> string" where
  "create_motorcycle_price_segment price =
     (if number_lt price 5000 then ''Budget (< RM5k)''
      else if number_lt price 10000 then ''Entry Level (RM5k-10k)''
      else if number_lt price 20000 then ''Mid Range (RM10k-20k)''
      else if number_lt price 40000 then ''Premium (RM20k-40k)''
      else ''Luxury (> RM40k)'')"

definition MALAYSIA_STATES :: "string list" where
  "MALAYSIA_STATES =
     [''Johor'', ''Kedah'', ''Kelantan'', ''Melaka'', ''Malacca'', ''Negeri Sembilan'',
      ''N. Sembilan'', ''Pahang'', ''Perak'', ''Perlis'', ''Pulau Pinang'', ''Penang'',
      ''P. Pinang'', ''Sabah'', ''Sarawak'', ''Selangor'', ''Terengganu'', ''Kuala Lumpur'',
      ''KL'', ''W.P. Kuala Lumpur'', ''Federal Territory of Kuala Lumpur'']"

text \<open>\<^verbatim>\<open>render_market_overview\<close> with \<^verbatim>\<open>render_car_features\<close>.\<close>

definition render_car_features :: "ui \<Rightarrow> table \<Rightarrow> table option" where
  "render_car_features u df =
     (if \<not> draws u ''transmission'' df then None
      else case map_of df ''fuel_type'' of
             Some (Text xs) \<Rightarrow>
               (let df = AList.update ''fuel_type'' (Text (map (map_option (str_lower u)) xs)) df
                in if draws u ''fuel_type'' df then Some df else None)
           | _ \<Rightarrow> None)"

definition render_market_overview :: "ui \<Rightarrow> table \<Rightarrow> string \<Rightarrow> table option" where
  "render_market_overview u df vehicle_type =
     (case map_of df ''price'' of
        Some (Number price) \<Rightarrow>
          (let df = AList.update ''price_segment''
                      (Text (map (\<lambda>p. Some ((if vehicle_type = ''car'' then create_price_segment
                                               else create_motorcycle_price_segment) p))
                               (numbers price))) df
           in if \<not> draws u ''render_popular_makes'' df then None
              else if \<not> draws u ''render_price_segments'' df then None
              else if vehicle_type = ''car'' then render_car_features u df
              else if draws u ''render_motorcycle_features'' df then Some df else None)
      | _ \<Rightarrow> None)"

text \<open>
  \<^verbatim>\<open>render_price_analysis\<close> with \<^verbatim>\<open>render_mileage_analysis\<close>. \<^verbatim>\<open>pd.cut\<close> gives a cell
  the label of the interval, open on the left and closed on the right, that holds it,
  and no label when there is none.
\<close>

fun clip_upper :: "int \<Rightarrow> number \<Rightarrow> number" where
  "clip_upper n (IntNum w) = (if n < sint w then IntNum (of_int n) else IntNum w)"
| "clip_upper n (FloatNum f) =
     (if float_less (Finite (of_int n)) f then FloatNum (Finite (of_int n)) else FloatNum f)"

definition cut :: "int list \<Rightarrow> string list \<Rightarrow> number \<Rightarrow> string option" where
  "cut bins labels v =
     (case filter (\<lambda>i. number_gt v (bins ! i) \<and> number_le v (bins ! (i + 1)))
             [0..<length labels] of
        [] \<Rightarrow> None
      | i # _ \<Rightarrow> Some (labels ! i))"

definition mileage_bins :: "int list" where
  "mileage_bins = map (\<lambda>i. 20000 * int i) [0..<11]"

definition mileage_labels :: "string list" where
  "mileage_labels =
     [''0-20,000'', ''20,000-40,000'', ''40,000-60,000'', ''60,000-80,000'', ''80,000-100,000'',
      ''100,000-120,000'', ''120,000-140,000'', ''140,000-160,000'', ''160,000-180,000'',
      ''180,000-200,000'']"

definition render_mileage_analysis :: "ui \<Rightarrow> table \<Rightarrow> table option" where
  "render_mileage_analysis u df =
     (case map_of df ''mileage_avg'' of
        Some (Number mileage_avg) \<Rightarrow>
          (let df = AList.update ''mileage_bin''
                      (Text (map (\<lambda>v. cut mileage_bins mileage_labels (clip_upper 200000 v))
                               (numbers mileage_avg))) df
           in if draws u ''render_mileage_analysis'' df then Some df else None)
      | _ \<Rightarrow> None)"

definition render_price_analysis :: "ui \<Rightarrow> table \<Rightarrow> string \<Rightarrow> table option" where
  "render_price_analysis u df vehicle_type =
     (if \<not> draws u ''render_age_analysis'' df then None
      else case (if vehicle_type = ''car'' then render_mileage_analysis u df
                 else if draws u ''render_price_distribution'' df then Some df else None) of
             None \<Rightarrow> None
           | Some df \<Rightarrow> if draws u ''render_brand_analysis'' df then Some df else None)"

text \<open>\<^verbatim>\<open>render_regional_analysis\<close> with \<^verbatim>\<open>standardize_location\<close>.\<close>

definition location_mapping :: "(string \<times> string) list" where
  "location_mapping =
     [(''Malacca'', ''Melaka''), (''N. Sembilan'', ''Negeri Sembilan''),
      (''Penang'', ''Pulau Pinang''), (''P. Pinang'', ''Pulau Pinang''),
      (''KL'', ''W.P. Kuala Lumpur''), (''Kuala Lumpur'', ''W.P. Kuala Lumpur''),
      (''Federal Territory of Kuala Lumpur'', ''W.P. Kuala Lumpur''),
      (''Putrajaya'', ''W.P. Putrajaya''), (''Labuan'', ''W.P. Labuan'')]"

definition standardize_location :: "string \<Rightarrow> string" where
  "standardize_location location =
     (if location \<in> set MALAYSIA_STATES then location
      else case map_of location_mapping location of Some s \<Rightarrow> s | None \<Rightarrow> location)"

definition render_regional_analysis :: "ui \<Rightarrow> table \<Rightarrow> string \<Rightarrow> table option" where
  "render_regional_analysis u df vehicle_type =
     (case map_of df ''location'' of
        None \<Rightarrow> None
      | Some location \<Rightarrow>
          (let df = AList.update ''location''
                      (case location of
                         Text xs \<Rightarrow> Text (map (map_option standardize_location) xs)
                       | Number a \<Rightarrow> Number a) df
           in if draws u ''render_regional_analysis'' df then Some df else None))"

text \<open>
  \<^verbatim>\<open>main\<close> up to the call of \<^verbatim>\<open>render_price_prediction\<close>: the result is the table
  that the call passes as the working table. The sliders and the brand selection of
  the sidebar are the user's; \<open>current_year\<close> is \<^verbatim>\<open>datetime.now().year\<close>.
\<close>

definition main ::
  "ui \<Rightarrow> sidebar \<Rightarrow> (string \<Rightarrow> number option) \<Rightarrow> int \<Rightarrow> table option \<Rightarrow> string \<Rightarrow> table option" where
  "main u s parse current_year csv vehicle_type =
     (let df = (if vehicle_type = ''car'' then load_car_data parse current_year csv
                else load_motorcycle_data parse current_year csv)
      in if table_empty df then None
         else if \<not> draws u ''sidebar'' df then None
         else case apply_filters s df of
                None \<Rightarrow> None
              | Some filtered_df \<Rightarrow>
                  if \<not> draws u ''metrics'' filtered_df then None
                  else Option.bind (render_market_overview u filtered_df vehicle_type) (\<lambda>df1.
                       Option.bind (render_price_analysis u df1 vehicle_type) (\<lambda>df2.
                       render_regional_analysis u df2 vehicle_type)))"

section \<open>Example inputs\<close>

text \<open>
  A regressor that predicts one fixed price, and a stand-in for scikit-learn whose
  results depend on the ambient generator exactly when no \<^verbatim>\<open>random_state\<close> is given.
\<close>

definition constant_regressor :: "real \<Rightarrow> regressor" where
  "constant_regressor p = \<lparr>predict = (\<lambda>X. Inr [p]), score = (\<lambda>X y. Inr 1)\<rparr>"

definition toy_sklearn :: "nat sklearn" where
  "toy_sklearn =
     \<lparr>train_test_split = (\<lambda>g X y test_size random_state.
        (let k = (case random_state of None \<Rightarrow> g | Some seed \<Rightarrow> seed)
         in Inr (head k X, X, take_series k y, y))),
      RandomForestRegressor_fit = (\<lambda>g n_estimators random_state X y.
        Inr (constant_regressor (real (case random_state of None \<Rightarrow> g | Some seed \<Rightarrow> seed))))\<rparr>"

text \<open>A motorcycle table of \<open>n\<close> complete rows.\<close>

definition motorcycles :: "nat \<Rightarrow> dataframe" where
  "motorcycles n =
     [(''make'', Object (replicate n (Some ''Honda''))),
      (''model'', Object (replicate n (Some ''Wave''))),
      (''year'', Numeric (replicate n (Some 2018))),
      (''price'', Numeric (replicate n (Some 4000)))]"

text \<open>The same table followed by one listing without a price.\<close>

definition motorcycles_unpriced :: "nat \<Rightarrow> dataframe" where
  "motorcycles_unpriced n =
     [(''make'', Object (replicate n (Some ''Honda'') @ [Some ''Yamaha''])),
      (''model'', Object (replicate n (Some ''Wave'') @ [Some ''Lagenda''])),
      (''year'', Numeric (replicate n (Some 2018) @ [Some 2015])),
      (''price'', Numeric (replicate n (Some 4000) @ [None]))]"

text \<open>What training on at least 100 such rows returns with the stand-in library.\<close>

definition trained_motorcycles :: trained where
  "trained_motorcycles =
     \<lparr>model = constant_regressor 42,
      label_encoders = [(''make'', LabelEncoder [''Honda'']), (''model'', LabelEncoder [''Wave''])],
      train_score = 1, test_score = 1,
      schema = [''make'', ''model'', ''year'']\<rparr>"

text \<open>
  The two car listings of the specification's example, a Civic of 2019 and one of 2021,
  with the inputs of a user who asks about a Civic of 2018 with 50000 km.
\<close>

definition civics :: dataframe where
  "civics =
     [(''make'', Object [Some ''Honda'', Some ''Honda'']),
      (''model'', Object [Some ''Civic'', Some ''Civic'']),
      (''year'', Numeric [Some 2019, Some 2021]),
      (''price'', Numeric [Some 70000, Some 80000]),
      (''ad_url'', Object [Some ''https://www.mudah.my/1'', None]),
      (''mileage_avg'', Numeric [Some 60000, Some 60000]),
      (''transmission'', Object [Some ''Auto'', Some ''Auto'']),
      (''fuel_type'', Object [Some ''petrol'', Some ''petrol''])]"

definition civic_inputs :: "(string \<times> pyval) list" where
  "civic_inputs =
     [(''make'', PyStr ''Honda''), (''model'', PyStr ''Civic''), (''year'', PyInt 2018),
      (''mileage_avg'', PyInt 50000), (''transmission'', PyStr ''Auto''),
      (''fuel_type'', PyStr ''petrol'')]"

definition wave_inputs :: "(string \<times> pyval) list" where
  "wave_inputs = [(''make'', PyStr ''Honda''), (''model'', PyStr ''Wave''), (''year'', PyInt 2018)]"

definition lagenda_inputs :: "(string \<times> pyval) list" where
  "lagenda_inputs =
     [(''make'', PyStr ''Yamaha''), (''model'', PyStr ''Lagenda''), (''year'', PyInt 2018)]"

text \<open>
  A parser of unsigned decimal literals, \<^verbatim>\<open>str.lower\<close> on ASCII text, a browser session
  in which every chart draws, and a sidebar left at the full price and year range with
  no brand chosen.
\<close>

definition parse_digits :: "string \<Rightarrow> number option" where
  "parse_digits s =
     (if s \<noteq> [] \<and> list_all (\<lambda>c. CHR ''0'' \<le> c \<and> c \<le> CHR ''9'') s
      then Some (IntNum (foldl (\<lambda>a c. 10 * a + of_nat (of_char c - (48::nat))) 0 s))
      else None)"

definition ascii_lower :: "string \<Rightarrow> string" where
  "ascii_lower s =
     map (\<lambda>c. if CHR ''A'' \<le> c \<and> c \<le> CHR ''Z'' then char_of (of_char c + 32 :: nat) else c) s"

definition browser :: ui where
  "browser = \<lparr>draws = (\<lambda>part df. True), str_lower = ascii_lower\<rparr>"

definition all_listings :: sidebar where
  "all_listings = \<lparr>price_slider = (28000, 75000), year_slider = (2015, 2020), selected_makes = []\<rparr>"

text \<open>
  An export of three cars as \<^verbatim>\<open>read_csv\<close> returns it. The lower odometer reading of the
  third is the text \<^verbatim>\<open>unknown\<close>, which makes the column one of strings. Below it the
  working table that reaches the price prediction page in 2025.
\<close>

definition exported_cars :: table where
  "exported_cars =
     [(''make'', Text [Some ''Honda'', Some ''Proton'', Some ''Perodua'']),
      (''model'', Text [Some ''Civic'', Some ''Saga'', Some ''Myvi'']),
      (''price'', Number (Int64 [75000, 28000, 30000])),
      (''year'', Number (Int64 [2020, 2015, 2018])),
      (''mileage_min'', Text [Some ''50000'', Some ''80000'', Some ''unknown'']),
      (''mileage_max'', Number (Int64 [70000, 100000, 40000])),
      (''transmission'', Text [Some ''Auto'', Some ''Manual'', Some ''Auto'']),
      (''fuel_type'', Text [Some ''Petrol'', Some ''Diesel'', Some ''PETROL'']),
      (''location'', Text [Some ''KL'', Some ''Selangor'', Some ''Penang''])]"

definition working_cars :: table where
  "working_cars =
     [(''make'', Text [Some ''Honda'', Some ''Proton'', Some ''Perodua'']),
      (''model'', Text [Some ''Civic'', Some ''Saga'', Some ''Myvi'']),
      (''price'', Number (Int64 [75000, 28000, 30000])),
      (''year'', Number (Int64 [2020, 2015, 2018])),
      (''mileage_min'', Number (Float64 [Finite 50000, Finite 80000, NotANumber])),
      (''mileage_max'', Number (Int64 [70000, 100000, 40000])),
      (''transmission'', Text [Some ''Auto'', Some ''Manual'', Some ''Auto'']),
      (''fuel_type'', Text [Some ''petrol'', Some ''diesel'', Some ''petrol'']),
      (''location'', Text [Some ''KL'', Some ''Selangor'', Some ''Penang'']),
      (''age'', Number (Int64 [5, 10, 7])),
      (''mileage_avg'', Number (Float64 [Finite 60000, Finite 90000, NotANumber])),
      (''price_segment'',
       Text [Some ''Mid Range (RM50k-100k)'', Some ''Entry Level (RM25k-50k)'',
             Some ''Entry Level (RM25k-50k)'']),
      (''mileage_bin'', Text [Some ''40,000-60,000'', Some ''80,000-100,000'', None])]"

text \<open>
  An export of two cars, the second advertised without odometer readings: its cells are
  empty, which \<^verbatim>\<open>read_csv\<close> reads as NaN in columns of dtype \<^verbatim>\<open>float64\<close>. Below it the
  working table that reaches the price prediction page.
\<close>

definition exported_unmetered :: table where
  "exported_unmetered =
     [(''make'', Text [Some ''Honda'', Some ''Perodua'']),
      (''model'', Text [Some ''Civic'', Some ''Myvi'']),
      (''price'', Number (Int64 [75000, 28000])),
      (''year'', Number (Int64 [2020, 2015])),
      (''mileage_min'', Number (Float64 [Finite 50000, NotANumber])),
      (''mileage_max'', Number (Float64 [Finite 70000, NotANumber])),
      (''transmission'', Text [Some ''Auto'', Some ''Manual'']),
      (''fuel_type'', Text [Some ''Petrol'', Some ''Petrol'']),
      (''location'', Text [Some ''Selangor'', Some ''Johor''])]"

definition working_unmetered :: table where
  "working_unmetered =
     [(''make'', Text [Some ''Honda'', Some ''Perodua'']),
      (''model'', Text [Some ''Civic'', Some ''Myvi'']),
      (''price'', Number (Int64 [75000, 28000])),
      (''year'', Number (Int64 [2020, 2015])),
      (''mileage_min'', Number (Float64 [Finite 50000, NotANumber])),
      (''mileage_max'', Number (Float64 [Finite 70000, NotANumber])),
      (''transmission'', Text [Some ''Auto'', Some ''Manual'']),
      (''fuel_type'', Text [Some ''petrol'', Some ''petrol'']),
      (''location'', Text [Some ''Selangor'', Some ''Johor'']),
      (''age'', Number (Int64 [5, 10])),
      (''mileage_avg'', Number (Float64 [Finite 60000, NotANumber])),
      (''price_segment'',
       Text [Some ''Mid Range (RM50k-100k)'', Some ''Entry Level (RM25k-50k)'']),
      (''mileage_bin'', Text [Some ''40,000-60,000'', None])]"

section \<open>Properties of binary64 rounding\<close>

lemma exponent_up_props:
  "1 \<le> x \<Longrightarrow> exponent_up k x e = r \<Longrightarrow>
     e \<le> r \<and> r \<le> e + int k \<and> 2 powi (r - e) \<le> x \<and> (r < e + int k \<longrightarrow> x < 2 powi (r - e + 1))"
proof (induction k arbitrary: x e)
  case 0
  then show ?case by simp
next
  case (Suc k)
  show ?case
  proof (cases "2 \<le> x")
    case False
    with Suc.prems show ?thesis by auto
  next
    case True
    with Suc.prems have "exponent_up k (x / 2) (e + 1) = r" by simp
    moreover have "1 \<le> x / 2" using True by simp
    ultimately have i: "e + 1 \<le> r" "r \<le> e + 1 + int k" "2 powi (r - (e + 1)) \<le> x / 2"
      "r < e + 1 + int k \<longrightarrow> x / 2 < 2 powi (r - (e + 1) + 1)"
      using Suc.IH[of "x / 2" "e + 1"] by auto
    have p: "(2::real) powi (r - e) = 2 * 2 powi (r - (e + 1))"
      using power_int_add_1'[of "2::real" "r - (e + 1)"] by (simp add: algebra_simps)
    have p': "(2::real) powi (r - e + 1) = 2 * 2 powi (r - (e + 1) + 1)"
      using power_int_add_1'[of "2::real" "r - (e + 1) + 1"] by (simp add: algebra_simps)
    from i show ?thesis unfolding p p' by auto
  qed
qed

lemma exponent_down_props:
  "0 \<le> x \<Longrightarrow> x < 1 \<Longrightarrow> exponent_down k x e = r \<Longrightarrow>
     e - int k \<le> r \<and> r \<le> e \<and> (e - int k < r \<longrightarrow> 2 powi (r - e) \<le> x) \<and> x < 2 powi (r - e + 1)"
proof (induction k arbitrary: x e)
  case 0
  then show ?case by simp
next
  case (Suc k)
  from Suc.prems have "exponent_down k (x * 2) (e - 1) = r" by simp
  show ?case
  proof (cases "x * 2 < 1")
    case True
    from Suc.IH[of "x * 2" "e - 1", OF _ True \<open>exponent_down k (x * 2) (e - 1) = r\<close>] Suc.prems(1)
    have i: "e - 1 - int k \<le> r" "r \<le> e - 1" "e - 1 - int k < r \<longrightarrow> 2 powi (r - (e - 1)) \<le> x * 2"
      "x * 2 < 2 powi (r - (e - 1) + 1)" by auto
    have p: "(2::real) powi (r - (e - 1)) = 2 * 2 powi (r - e)"
      using power_int_add_1'[of "2::real" "r - e"] by (simp add: algebra_simps)
    have p': "(2::real) powi (r - (e - 1) + 1) = 2 * 2 powi (r - e + 1)"
      using power_int_add_1'[of "2::real" "r - e + 1"] by (simp add: algebra_simps)
    from i show ?thesis unfolding p p' by auto
  next
    case False
    have "exponent_down k (x * 2) (e - 1) = e - 1"
      using False by (cases k) auto
    with \<open>exponent_down k (x * 2) (e - 1) = r\<close> have r: "r = e - 1" by simp
    have "(2::real) powi (- 1) \<le> x" using False by simp
    with r Suc.prems show ?thesis by auto
  qed
qed

lemma exponent_bracket:
  assumes "2 powi (- 1022) \<le> \<bar>x\<bar>" "\<bar>x\<bar> < 2 powi 1024"
  shows "2 powi exponent x \<le> \<bar>x\<bar> \<and> \<bar>x\<bar> < 2 powi (exponent x + 1) \<and>
         - 1022 \<le> exponent x \<and> exponent x \<le> 1023"
proof (cases "1 \<le> \<bar>x\<bar>")
  case True
  from exponent_up_props[OF True, of 1023 0 "exponent x"] True
  have p: "0 \<le> exponent x" "exponent x \<le> 1023" "2 powi exponent x \<le> \<bar>x\<bar>"
    "exponent x < 1023 \<longrightarrow> \<bar>x\<bar> < 2 powi (exponent x + 1)"
    by (simp_all add: exponent_def)
  have "\<bar>x\<bar> < 2 powi (exponent x + 1)"
  proof (cases "exponent x < 1023")
    case True with p show ?thesis by simp
  next
    case False
    with p have "exponent x = 1023" by simp
    with assms show ?thesis by simp
  qed
  with p show ?thesis by simp
next
  case False
  then have lt: "\<bar>x\<bar> < 1" by simp
  from exponent_down_props[OF _ lt, of 1022 0 "exponent x"] False
  have p: "- 1022 \<le> exponent x" "exponent x \<le> 0"
    "- 1022 < exponent x \<longrightarrow> 2 powi exponent x \<le> \<bar>x\<bar>" "\<bar>x\<bar> < 2 powi (exponent x + 1)"
    by (simp_all add: exponent_def)
  have "2 powi exponent x \<le> \<bar>x\<bar>"
  proof (cases "- 1022 < exponent x")
    case True with p show ?thesis by simp
  next
    case False
    with p have "exponent x = - 1022" by simp
    with assms show ?thesis by simp
  qed
  with p show ?thesis by simp
qed

lemma exponent_eq:
  assumes "2 powi e \<le> \<bar>x\<bar>" "\<bar>x\<bar> < 2 powi (e + 1)" "- 1022 \<le> e" "e \<le> 1023"
  shows "exponent x = e"
proof -
  have lo: "(2::real) powi (- 1022) \<le> 2 powi e" using assms(3) by (intro power_int_increasing) auto
  have hi: "(2::real) powi (e + 1) \<le> 2 powi 1024" using assms(4) by (intro power_int_increasing) auto
  from exponent_bracket[of x] lo hi assms
  have b: "2 powi exponent x \<le> \<bar>x\<bar>" "\<bar>x\<bar> < 2 powi (exponent x + 1)" by auto
  have "(2::real) powi exponent x < 2 powi (e + 1)" using b(1) assms(2) by simp
  then have 1: "exponent x < e + 1"
    by (metis power_int_increasing not_le one_le_numeral)
  have "(2::real) powi e < 2 powi (exponent x + 1)" using b(2) assms(1) by simp
  then have 2: "e < exponent x + 1"
    by (metis power_int_increasing not_le one_le_numeral)
  from 1 2 show ?thesis by simp
qed

lemma rne_error: "\<bar>of_int (rne y) - y\<bar> \<le> 1/2"
  unfolding rne_def Let_def by (auto simp: abs_if) linarith+

lemma rne_of_int: "rne (of_int k) = k"
  by (simp add: rne_def)

lemma round64_rel_error:
  assumes "2 powi (- 1022) \<le> \<bar>x\<bar>" "\<bar>x\<bar> \<le> 2 powi 1023 * (3/2)"
  shows "\<exists>r. round64 x = Finite r \<and> \<bar>r - x\<bar> \<le> 2 powi (- 53) * \<bar>x\<bar>"
proof -
  let ?e = "exponent x"
  let ?q = "(2::real) powi (?e - 52)"
  let ?r = "?q * of_int (rne (x / ?q))"
  have "\<bar>x\<bar> < 2 powi 1024"
  proof -
    have "(2::real) powi 1023 * (3/2) < 2 powi 1023 * 2" by simp
    also have "\<dots> = 2 powi 1024" by (simp add: power_int_def)
    finally show ?thesis using assms(2) by simp
  qed
  from exponent_bracket[OF assms(1) this]
  have b: "2 powi ?e \<le> \<bar>x\<bar>" by simp
  have q: "0 < ?q" by simp
  have "\<bar>?r - x\<bar> = ?q * \<bar>of_int (rne (x / ?q)) - x / ?q\<bar>"
  proof -
    have "?r - x = ?q * (of_int (rne (x / ?q)) - x / ?q)" using q by (simp add: field_simps)
    then show ?thesis using q by (simp add: abs_mult)
  qed
  also have "\<dots> \<le> ?q * (1/2)"
    using rne_error[of "x / ?q"] q by (intro mult_left_mono) auto
  also have "\<dots> = 2 powi (- 53) * 2 powi ?e"
    by (simp add: power_int_diff power_int_minus_divide)
  also have "\<dots> \<le> 2 powi (- 53) * \<bar>x\<bar>" using b by (intro mult_left_mono) auto
  finally have err: "\<bar>?r - x\<bar> \<le> 2 powi (- 53) * \<bar>x\<bar>" .
  have "\<bar>?r\<bar> \<le> \<bar>x\<bar> + 2 powi (- 53) * \<bar>x\<bar>" using err by linarith
  also have "\<dots> \<le> 2 powi 1023 * (3/2) + 2 powi (- 53) * (2 powi 1023 * (3/2))"
    using assms(2) by (intro add_mono mult_left_mono) auto
  also have "\<dots> = 2 powi 1023 * ((3/2) * (1 + 2 powi (- 53)))"
    by (simp add: algebra_simps)
  also have "\<dots> < 2 powi 1023 * 2"
  proof -
    have "(3/2) * (1 + 2 powi (- 53)) < (2::real)" by (simp add: power_int_minus_divide)
    then show ?thesis by (intro mult_strict_left_mono) auto
  qed
  also have "\<dots> = 2 powi 1024" by (simp add: power_int_def)
  finally have "\<not> 2 powi 1024 \<le> \<bar>?r\<bar>" by simp
  then have "round64 x = Finite ?r" by (simp add: round64_def Let_def)
  with err show ?thesis by blast
qed


lemma round64_bracket:
  assumes "2 powi e \<le> \<bar>x\<bar>" "\<bar>x\<bar> < 2 powi (e + 1)" "- 1022 \<le> e" "e \<le> 1023"
  shows "round64 x =
     (if (2::real) powi 1024 \<le> \<bar>2 powi (e - 52) * real_of_int (rne (x / 2 powi (e - 52)))\<bar>
      then (if 0 < x then PlusInf else MinusInf)
      else Finite (2 powi (e - 52) * real_of_int (rne (x / 2 powi (e - 52)))))"
  by (simp add: round64_def Let_def exponent_eq[OF assms])

lemma exponent_range: "- 1022 \<le> exponent x \<and> exponent x \<le> 1023"
proof (cases "1 \<le> \<bar>x\<bar>")
  case True
  from exponent_up_props[OF True, of 1023 0 "exponent x"] True show ?thesis
    by (simp add: exponent_def)
next
  case False
  then have lt: "\<bar>x\<bar> < 1" by simp
  from exponent_down_props[OF _ lt, of 1022 0 "exponent x"] False show ?thesis
    by (simp add: exponent_def)
qed

lemma exponent_upper: "exponent x < 1023 \<Longrightarrow> \<bar>x\<bar> < 2 powi (exponent x + 1)"
proof (cases "1 \<le> \<bar>x\<bar>")
  case True
  assume "exponent x < 1023"
  with exponent_up_props[OF True, of 1023 0 "exponent x"] True show ?thesis
    by (simp add: exponent_def)
next
  case False
  then have lt: "\<bar>x\<bar> < 1" by simp
  from exponent_down_props[OF _ lt, of 1022 0 "exponent x"] False show ?thesis
    by (simp add: exponent_def)
qed

lemma exponent_down_zero: "exponent_down k 0 e = e - int k"
  by (induction k arbitrary: e) auto

lemma exponent_zero: "exponent 0 = - 1022"
  by (simp add: exponent_def exponent_down_zero)

lemma round64_zero: "round64 0 = Finite 0"
  by (simp add: round64_def Let_def rne_def)

lemma rne_bound:
  assumes "\<bar>y\<bar> < of_int b"
  shows "\<bar>rne y\<bar> \<le> b"
proof -
  have "\<bar>real_of_int (rne y)\<bar> \<le> \<bar>y\<bar> + 1/2" using rne_error[of y] by linarith
  also have "\<dots> < of_int b + 1/2" using assms by simp
  finally have "real_of_int \<bar>rne y\<bar> < of_int b + 1/2" by simp
  then have "real_of_int \<bar>rne y\<bar> < real_of_int (b + 1)" by simp
  then have "\<bar>rne y\<bar> < b + 1" by (simp only: of_int_less_iff)
  then show ?thesis by simp
qed

lemma round64_overflow:
  "(2 powi 1024 \<le> \<bar>2 powi (exponent x - 52) * real_of_int (rne (x / 2 powi (exponent x - 52)))\<bar>)
     \<longleftrightarrow> (exponent x = 1023 \<and> 2 ^ 53 \<le> \<bar>rne (x / 2 powi (exponent x - 52))\<bar>)"
proof -
  let ?e = "exponent x"
  let ?q = "(2::real) powi (?e - 52)"
  let ?n = "rne (x / ?q)"
  have q: "0 < ?q" by simp
  have absr: "\<bar>?q * real_of_int ?n\<bar> = ?q * real_of_int \<bar>?n\<bar>" using q by (simp add: abs_mult)
  show ?thesis
  proof (cases "?e = 1023")
    case True
    have p: "(2::real) powi 1024 = 2 powi (1023 - 52) * 2 ^ 53"
    proof -
      have "(2::real) powi 1024 = 2 powi ((1023 - 52) + 53)" by simp
      also have "\<dots> = 2 powi (1023 - 52) * 2 powi 53" by (rule power_int_add) simp
      finally show ?thesis by simp
    qed
    have "(2 powi 1024 \<le> ?q * real_of_int \<bar>?n\<bar>) \<longleftrightarrow> ((2::real) ^ 53 \<le> real_of_int \<bar>?n\<bar>)"
      unfolding True p by (rule mult_le_cancel_left_pos) simp
    also have "\<dots> \<longleftrightarrow> (2 ^ 53 \<le> \<bar>?n\<bar>)"
    proof -
      have "(2::real) ^ 53 = real_of_int (2 ^ 53)" by simp
      then show ?thesis by (simp only: of_int_le_iff)
    qed
    finally show ?thesis unfolding absr using True by simp
  next
    case False
    with exponent_range[of x] have lt: "?e < 1023" by simp
    from exponent_upper[OF lt] have "\<bar>x\<bar> < 2 powi (?e + 1)" .
    then have "\<bar>x\<bar> / ?q < 2 powi (?e + 1) / ?q" using q by (simp add: divide_strict_right_mono)
    also have "2 powi (?e + 1) / ?q = (2::real) powi ((?e + 1) - (?e - 52))"
      by (rule power_int_diff[symmetric]) simp
    also have "\<dots> = 2 ^ 53" by simp
    finally have "\<bar>x / ?q\<bar> < real_of_int (2 ^ 53)" using q by simp
    from rne_bound[OF this] have n: "\<bar>?n\<bar> \<le> 2 ^ 53" .
    have "?q * real_of_int \<bar>?n\<bar> \<le> ?q * 2 ^ 53"
    proof -
      have "real_of_int \<bar>?n\<bar> \<le> real_of_int (2 ^ 53)" using n by (simp only: of_int_le_iff)
      then show ?thesis using q by simp
    qed
    also have "?q * 2 ^ 53 = 2 powi ((?e - 52) + 53)"
    proof -
      have "(2::real) powi ((?e - 52) + 53) = ?q * 2 powi 53" by (rule power_int_add) simp
      then show ?thesis by simp
    qed
    also have "\<dots> \<le> 2 powi 1023" using lt by (intro power_int_increasing) auto
    also have "\<dots> < (2::real) powi 1024" by (intro power_int_strict_increasing) auto
    finally have "\<not> 2 powi 1024 \<le> ?q * real_of_int \<bar>?n\<bar>" by simp
    then show ?thesis unfolding absr using False by simp
  qed
qed

lemma round64_code [code]:
  "round64 x =
     (if x = 0 then Finite 0
      else
        (let e = exponent x; q = 2 powi (e - 52); n = rne (x / q)
         in if e = 1023 \<and> 2 ^ 53 \<le> \<bar>n\<bar> then (if 0 < x then PlusInf else MinusInf)
            else Finite (q * of_int n)))"
proof (cases "x = 0")
  case True
  then show ?thesis by (simp add: round64_zero)
next
  case False
  then show ?thesis
    unfolding round64_def Let_def round64_overflow by simp
qed

lemma round64_exact:
  assumes "\<bar>k\<bar> < 2 ^ 53" "- 1022 \<le> j" "j \<le> 970"
  shows "round64 (of_int k * 2 powi j) = Finite (of_int k * 2 powi j)"
proof (cases "k = 0")
  case True
  then show ?thesis by (simp add: round64_zero)
next
  case False
  let ?x = "real_of_int k * 2 powi j"
  let ?e = "exponent ?x"
  have ax: "\<bar>?x\<bar> = real_of_int \<bar>k\<bar> * 2 powi j" by (simp add: abs_mult)
  have k1: "1 \<le> real_of_int \<bar>k\<bar>"
  proof -
    have "1 \<le> \<bar>k\<bar>" using False by arith
    then have "real_of_int 1 \<le> real_of_int \<bar>k\<bar>" by (simp only: of_int_le_iff)
    then show ?thesis by simp
  qed
  have lo: "2 powi j \<le> \<bar>?x\<bar>" unfolding ax using k1 by simp
  have "real_of_int \<bar>k\<bar> < real_of_int (2 ^ 53)" using assms(1) by (simp only: of_int_less_iff)
  then have "\<bar>?x\<bar> < 2 ^ 53 * 2 powi j" unfolding ax by simp
  also have "2 ^ 53 * 2 powi j = (2::real) powi (53 + j)"
  proof -
    have "(2::real) powi (53 + j) = 2 powi 53 * 2 powi j" by (rule power_int_add) simp
    then show ?thesis by simp
  qed
  finally have hi: "\<bar>?x\<bar> < 2 powi (53 + j)" .
  have lo': "2 powi (- 1022) \<le> \<bar>?x\<bar>"
  proof -
    have "(2::real) powi (- 1022) \<le> 2 powi j" using assms(2) by (intro power_int_increasing) auto
    with lo show ?thesis by simp
  qed
  have hi': "\<bar>?x\<bar> < 2 powi 1024"
  proof -
    have "(2::real) powi (53 + j) \<le> 2 powi 1024" using assms(3) by (intro power_int_increasing) auto
    with hi show ?thesis by simp
  qed
  from exponent_bracket[OF lo' hi'] have b: "2 powi ?e \<le> \<bar>?x\<bar>" by simp
  with hi have "(2::real) powi ?e < 2 powi (53 + j)" by simp
  then have e: "?e < 53 + j" by (metis power_int_increasing not_le one_le_numeral)
  define d where "d = nat (j - ?e + 52)"
  have d: "j - (?e - 52) = int d" using e by (simp add: d_def)
  let ?q = "(2::real) powi (?e - 52)"
  have "?x / ?q = real_of_int k * (2 powi j / ?q)" by simp
  also have "2 powi j / ?q = (2::real) powi (j - (?e - 52))"
    by (rule power_int_diff[symmetric]) simp
  also have "\<dots> = 2 ^ d" unfolding d by simp
  finally have xq: "?x / ?q = real_of_int (k * 2 ^ d)" by simp
  have r: "?q * real_of_int (rne (?x / ?q)) = ?x"
  proof -
    have "?q * real_of_int (rne (?x / ?q)) = ?q * (?x / ?q)"
      unfolding xq rne_of_int ..
    then show ?thesis by simp
  qed
  show ?thesis
    unfolding round64_def Let_def r using hi' by simp
qed

lemma round64_int: "\<bar>k\<bar> < 2 ^ 53 \<Longrightarrow> round64 (of_int k) = Finite (of_int k)"
  using round64_exact[of k 0] by simp

lemma round64_half: "\<bar>k\<bar> < 2 ^ 53 \<Longrightarrow> round64 (of_int k / 2) = Finite (of_int k / 2)"
  using round64_exact[of k "- 1"] by simp

section \<open>Properties of the predictor\<close>

lemma index_of_None: "index_of xs y = None \<longleftrightarrow> y \<notin> set xs"
  by (induction xs) auto

lemma transform_unseen: "y \<notin> set (classes enc) \<Longrightarrow> transform enc y = Inl ValueError"
  using index_of_None[of "classes enc" y] by (simp add: transform_def)

lemma transform_Inl: "transform enc y = Inl e \<Longrightarrow> y \<notin> set (classes enc)"
  by (auto simp: transform_def index_of_None split: option.splits)

lemma encode_inputs_reports:
  assumes "f \<in> set fs" "map_of encoders f = Some enc" "map_of inputs f = Some v"
    "py_str v \<notin> set (classes enc)" "\<forall>g\<in>set fs. map_of inputs g \<noteq> None"
  shows "\<exists>f' v' enc'. encode_inputs encoders inputs fs acc = Inl (UnknownCategory f' v') \<and>
           f' \<in> set fs \<and> map_of encoders f' = Some enc' \<and> map_of inputs f' = Some v' \<and>
           py_str v' \<notin> set (classes enc')"
  using assms
proof (induction fs arbitrary: acc)
  case Nil
  then show ?case by simp
next
  case (Cons g gs)
  obtain w where w: "map_of inputs g = Some w" using Cons.prems(5) by auto
  show ?case
  proof (cases "map_of encoders g")
    case None
    with Cons.prems have "f \<in> set gs" by auto
    then show ?thesis using Cons.IH[of "AList.update g w acc"] Cons.prems None w
      by auto
  next
    case (Some encg)
    show ?thesis
    proof (cases "transform encg (py_str w)")
      case (Inl e)
      then show ?thesis using Some w transform_Inl[OF Inl] by auto
    next
      case (Inr c)
      then have "f \<noteq> g" using Cons.prems Some w by (auto simp: transform_unseen)
      then have "f \<in> set gs" using Cons.prems by auto
      then show ?thesis
        using Cons.IH[of "AList.update g (PyInt (int c)) acc"] Cons.prems Some w Inr
        by auto
    qed
  qed
qed

text \<open>
  C1. Let the inputs give a value to every feature of the model. If some feature that has
  an encoder is given a value whose string the encoder has not seen, then
  \<^verbatim>\<open>predict_price\<close> returns no number: it stops with the warning "Unknown category",
  which names a feature that has an encoder and the value supplied for it, a value that
  encoder does not know.
\<close>

theorem predict_price_unknown_category:
  assumes "f \<in> set model_features" "map_of encoders f = Some enc"
    "map_of inputs f = Some v" "py_str v \<notin> set (classes enc)"
    "\<forall>g\<in>set model_features. map_of inputs g \<noteq> None"
  shows "\<exists>f' v' enc'.
           predict_price prediction_model encoders model_features inputs
             = Inl (UnknownCategory f' v') \<and>
           level_of (UnknownCategory f' v') = Warning \<and>
           f' \<in> set model_features \<and> map_of encoders f' = Some enc' \<and>
           map_of inputs f' = Some v' \<and> py_str v' \<notin> set (classes enc')"
proof -
  obtain f' v' enc' where
    "encode_inputs encoders inputs model_features [] = Inl (UnknownCategory f' v')"
    "f' \<in> set model_features" "map_of encoders f' = Some enc'" "map_of inputs f' = Some v'"
    "py_str v' \<notin> set (classes enc')"
    using encode_inputs_reports[OF assms, of "[]"] by blast
  then show ?thesis by (auto simp: predict_price_def)
qed

theorem predict_price_unknown_category_witness:
  "predict_price (constant_regressor 1) [(''make'', LabelEncoder [''Honda'', ''Toyota''])]
     [''make'', ''year''] [(''make'', PyStr ''Tesla''), (''year'', PyInt 2018)]
   = Inl (UnknownCategory ''make'' (PyStr ''Tesla''))"
proof -
  let ?encoders = "[(''make'', LabelEncoder [''Honda'', ''Toyota''])]"
  let ?inputs = "[(''make'', PyStr ''Tesla''), (''year'', PyInt 2018)]"
  have h1: "''make'' \<in> set [''make'', ''year'']" by simp
  have h2: "map_of ?encoders ''make'' = Some (LabelEncoder [''Honda'', ''Toyota''])" by simp
  have h3: "map_of ?inputs ''make'' = Some (PyStr ''Tesla'')" by simp
  have h4: "py_str (PyStr ''Tesla'') \<notin> set (classes (LabelEncoder [''Honda'', ''Toyota'']))"
    by simp
  have h5: "\<forall>g\<in>set [''make'', ''year'']. map_of ?inputs g \<noteq> None" by simp
  obtain f' v' where r: "predict_price (constant_regressor 1) ?encoders [''make'', ''year''] ?inputs
       = Inl (UnknownCategory f' v')"
    and "map_of ?encoders f' \<noteq> None" and "map_of ?inputs f' = Some v'"
    using predict_price_unknown_category[OF h1 h2 h3 h4 h5, of "constant_regressor 1"] by auto
  then have "f' = ''make''" and "v' = PyStr ''Tesla''" by (auto split: if_splits)
  with r show ?thesis by simp
qed

lemma literal_015: "round64 0.15 = Finite (5404319552844595/36028797018963968)"
  by (subst round64_bracket[where e="- 3"]) (simp_all add: rne_def)

lemma literal_085: "round64 0.85 = Finite (7656119366529843/9007199254740992)"
  by (subst round64_bracket[where e="- 1"]) (simp_all add: rne_def)

lemma literal_115: "round64 1.15 = Finite (2589569785738035/2251799813685248)"
  by (subst round64_bracket[where e="0"]) (simp_all add: rne_def)

lemma one_minus_015:
  "float_sub (Finite 1) (round64 0.15) = Finite (7656119366529843/9007199254740992)"
  unfolding literal_015 float_sub_def float_neg.simps float_add.simps
  by (subst round64_bracket[where e="- 1"]) (simp_all add: rne_def)

lemma one_plus_015:
  "float_add (Finite 1) (round64 0.15) = Finite (2589569785738035/2251799813685248)"
  unfolding literal_015 float_add.simps
  by (subst round64_bracket[where e="0"]) (simp_all add: rne_def)

lemma price_range_eq:
  "lower_bound (price_range p) = float_mul (Finite p) (round64 0.85) \<and>
   upper_bound (price_range p) = float_mul (Finite p) (round64 1.15) \<and>
   point_estimate (price_range p) = p"
  unfolding price_range_def Let_def one_minus_015 one_plus_015 literal_085 literal_115
  by simp

lemma lower_bound_below:
  assumes "2 powi (- 1021) \<le> p" "p \<le> 2 powi 1023"
  shows "\<exists>l. round64 (p * (7656119366529843/9007199254740992)) = Finite l \<and> l < p \<and>
           \<bar>l - p * 0.85\<bar> \<le> 2 powi (- 52) * p"
proof -
  let ?c = "7656119366529843/9007199254740992 :: real"
  have p0: "0 < p" using assms(1) by (rule less_le_trans[rotated]) simp
  have lo: "2 powi (- 1022) \<le> \<bar>p * ?c\<bar>"
  proof -
    have "(2::real) powi (- 1022) = 2 powi (- 1021 + - 1)" by simp
    also have "\<dots> = 2 powi (- 1021) * 2 powi (- 1)" by (rule power_int_add) simp
    also have "\<dots> = 2 powi (- 1021) * (1/2)" by simp
    finally have "(2::real) powi (- 1022) = 2 powi (- 1021) * (1/2)" .
    also have "\<dots> \<le> p * ?c" using assms(1) by (intro mult_mono) auto
    finally show ?thesis using p0 by simp
  qed
  have hi: "\<bar>p * ?c\<bar> \<le> 2 powi 1023 * (3/2)"
  proof -
    have "p * ?c \<le> 2 powi 1023 * (3/2)" using assms(2) p0 by (intro mult_mono) auto
    then show ?thesis using p0 by simp
  qed
  from round64_rel_error[OF lo hi] obtain l where
    l: "round64 (p * ?c) = Finite l" and e: "\<bar>l - p * ?c\<bar> \<le> 2 powi (- 53) * \<bar>p * ?c\<bar>"
    by blast
  have e': "\<bar>l - p * ?c\<bar> \<le> p * (2 powi (- 53) * ?c)" using e p0 by (simp add: abs_mult)
  have "l \<le> p * ?c + p * (2 powi (- 53) * ?c)" using e' by linarith
  also have "\<dots> = p * (?c + 2 powi (- 53) * ?c)" by (simp add: algebra_simps)
  also have "\<dots> < p * 1"
  proof -
    have "?c + 2 powi (- 53) * ?c < 1" by (simp add: power_int_minus_divide)
    then show ?thesis using p0 by (intro mult_strict_left_mono)
  qed
  finally have lt: "l < p" by simp
  have "\<bar>l - p * 0.85\<bar> \<le> \<bar>l - p * ?c\<bar> + \<bar>p * ?c - p * 0.85\<bar>" by linarith
  also have "\<bar>p * ?c - p * 0.85\<bar> = p * \<bar>?c - 0.85\<bar>"
  proof -
    have "p * ?c - p * 0.85 = p * (?c - 0.85)" by (simp add: algebra_simps)
    then show ?thesis using p0 by (simp add: abs_mult)
  qed
  also have "\<bar>l - p * ?c\<bar> + p * \<bar>?c - 0.85\<bar> \<le> p * (2 powi (- 53) * ?c) + p * \<bar>?c - 0.85\<bar>"
    using e' by simp
  also have "\<dots> = p * (2 powi (- 53) * ?c + \<bar>?c - 0.85\<bar>)" by (simp add: algebra_simps)
  also have "\<dots> \<le> p * 2 powi (- 52)"
  proof -
    have "2 powi (- 53) * ?c + \<bar>?c - 0.85\<bar> \<le> 2 powi (- 52)"
      by (simp add: power_int_minus_divide)
    then show ?thesis using p0 by (intro mult_left_mono) auto
  qed
  finally have "\<bar>l - p * 0.85\<bar> \<le> 2 powi (- 52) * p" by (simp add: mult.commute)
  with l lt show ?thesis by blast
qed


lemma upper_bound_above:
  assumes "2 powi (- 1021) \<le> p" "p \<le> 2 powi 1023"
  shows "\<exists>u. round64 (p * (2589569785738035/2251799813685248)) = Finite u \<and> p < u \<and>
           \<bar>u - p * 1.15\<bar> \<le> 2 powi (- 52) * p"
proof -
  let ?c = "2589569785738035/2251799813685248 :: real"
  have p0: "0 < p" using assms(1) by (rule less_le_trans[rotated]) simp
  have lo: "2 powi (- 1022) \<le> \<bar>p * ?c\<bar>"
  proof -
    have "(2::real) powi (- 1022) \<le> 2 powi (- 1021)" by (intro power_int_increasing) auto
    also have "\<dots> = 2 powi (- 1021) * 1" by simp
    also have "\<dots> \<le> p * ?c" using assms(1) by (intro mult_mono) auto
    finally show ?thesis using p0 by simp
  qed
  have hi: "\<bar>p * ?c\<bar> \<le> 2 powi 1023 * (3/2)"
  proof -
    have "p * ?c \<le> 2 powi 1023 * (3/2)" using assms(2) p0 by (intro mult_mono) auto
    then show ?thesis using p0 by simp
  qed
  from round64_rel_error[OF lo hi] obtain u where
    u: "round64 (p * ?c) = Finite u" and e: "\<bar>u - p * ?c\<bar> \<le> 2 powi (- 53) * \<bar>p * ?c\<bar>"
    by blast
  have e': "\<bar>u - p * ?c\<bar> \<le> p * (2 powi (- 53) * ?c)" using e p0 by (simp add: abs_mult)
  have "p * 1 < p * (?c - 2 powi (- 53) * ?c)"
  proof -
    have "1 < ?c - 2 powi (- 53) * ?c" by (simp add: power_int_minus_divide)
    then show ?thesis using p0 by (intro mult_strict_left_mono)
  qed
  also have "\<dots> = p * ?c - p * (2 powi (- 53) * ?c)" by (simp add: algebra_simps)
  also have "\<dots> \<le> u" using e' by linarith
  finally have gt: "p < u" by simp
  have "\<bar>u - p * 1.15\<bar> \<le> \<bar>u - p * ?c\<bar> + \<bar>p * ?c - p * 1.15\<bar>" by linarith
  also have "\<bar>p * ?c - p * 1.15\<bar> = p * \<bar>?c - 1.15\<bar>"
  proof -
    have "p * ?c - p * 1.15 = p * (?c - 1.15)" by (simp add: algebra_simps)
    then show ?thesis using p0 by (simp add: abs_mult)
  qed
  also have "\<bar>u - p * ?c\<bar> + p * \<bar>?c - 1.15\<bar> \<le> p * (2 powi (- 53) * ?c) + p * \<bar>?c - 1.15\<bar>"
    using e' by simp
  also have "\<dots> = p * (2 powi (- 53) * ?c + \<bar>?c - 1.15\<bar>)" by (simp add: algebra_simps)
  also have "\<dots> \<le> p * 2 powi (- 52)"
  proof -
    have "2 powi (- 53) * ?c + \<bar>?c - 1.15\<bar> \<le> 2 powi (- 52)"
      by (simp add: power_int_minus_divide)
    then show ?thesis using p0 by (intro mult_left_mono) auto
  qed
  finally have "\<bar>u - p * 1.15\<bar> \<le> 2 powi (- 52) * p" by (simp add: mult.commute)
  with u gt show ?thesis by blast
qed

text \<open>
  C3. The point estimate is the forest's prediction, an average of prices of training
  listings, and the loader keeps a listing only when its price lies strictly between 0
  and 1000000 (\<open>load_car_data_prices\<close> below). For every successful prediction whose
  point estimate \<open>p\<close> is a positive number in the normal range of binary64, from
  \<open>2 powi (- 1021)\<close> to \<open>2 powi 1023\<close>: the lower bound is exactly the binary64 product
  of \<open>p\<close> and 0.85 and the upper bound exactly the binary64 product of \<open>p\<close> and 1.15,
  where 0.85 and 1.15 are the binary64 numbers that \<^verbatim>\<open>1 - 0.15\<close> and \<^verbatim>\<open>1 + 0.15\<close>
  evaluate to. Both bounds are finite, they lie strictly on either side of the point
  estimate, and they differ from the real products \<open>p * 0.85\<close> and \<open>p * 1.15\<close> by at
  most \<open>2 powi (- 52) * p\<close>.
\<close>

theorem price_range_bounds:
  assumes "predict_with_range prediction_model encoders model_features inputs = Inr r"
    and "2 powi (- 1021) \<le> point_estimate r" and "point_estimate r \<le> 2 powi 1023"
  shows "lower_bound r = float_mul (Finite (point_estimate r)) (round64 0.85) \<and>
         upper_bound r = float_mul (Finite (point_estimate r)) (round64 1.15) \<and>
         (\<exists>l u. lower_bound r = Finite l \<and> upper_bound r = Finite u \<and>
            l < point_estimate r \<and> point_estimate r < u \<and>
            \<bar>l - point_estimate r * 0.85\<bar> \<le> 2 powi (- 52) * point_estimate r \<and>
            \<bar>u - point_estimate r * 1.15\<bar> \<le> 2 powi (- 52) * point_estimate r)"
proof -
  from assms(1) obtain p where r: "r = price_range p"
    by (auto simp: predict_with_range_def split: sum.splits)
  note eq = price_range_eq[of p]
  from eq have p: "point_estimate r = p" unfolding r by simp
  from assms(2,3) have range: "2 powi (- 1021) \<le> p" "p \<le> 2 powi 1023" unfolding p .
  from lower_bound_below[OF range] upper_bound_above[OF range] show ?thesis
    unfolding p unfolding r
    unfolding conjunct1[OF eq] conjunct1[OF conjunct2[OF eq]] literal_085 literal_115
      float_mul.simps
    by blast
qed

theorem price_range_bounds_witness:
  "predict_with_range (constant_regressor 50000) [] [''year''] [(''year'', PyInt 2018)]
     = Inr \<lparr>point_estimate = 50000, lower_bound = Finite 42500,
            upper_bound = Finite (7902739824639999 / 137438953472)\<rparr> \<and>
   float_mul (Finite 50000) (round64 0.85) = Finite 42500 \<and>
   float_mul (Finite 50000) (round64 1.15) = Finite (7902739824639999 / 137438953472) \<and>
   (42500::real) < 50000 \<and> (50000::real) < 7902739824639999 / 137438953472 \<and>
   \<bar>7902739824639999 / 137438953472 - 50000 * 1.15\<bar> \<le> 1 / 2 ^ 52 * (50000::real)"
proof -
  have pr: "price_range 50000
      = \<lparr>point_estimate = 50000, lower_bound = Finite 42500,
         upper_bound = Finite (7902739824639999 / 137438953472)\<rparr>"
    by code_simp
  have h: "predict_with_range (constant_regressor 50000) [] [''year''] [(''year'', PyInt 2018)]
     = Inr \<lparr>point_estimate = 50000, lower_bound = Finite 42500,
            upper_bound = Finite (7902739824639999 / 137438953472)\<rparr>"
    by (simp add: predict_with_range_def predict_price_def constant_regressor_def pr)
  have lo: "(2::real) powi (- 1021) \<le> 50000"
  proof -
    have "(2::real) powi (- 1021) \<le> 2 powi 0" by (intro power_int_increasing) auto
    then show ?thesis by simp
  qed
  have hi: "(50000::real) \<le> 2 powi 1023"
  proof -
    have "(2::real) powi 16 \<le> 2 powi 1023" by (intro power_int_increasing) auto
    then show ?thesis by simp
  qed
  have t: "(2::real) powi (- 52) = 1 / 2 ^ 52" by (simp add: power_int_minus_divide)
  from price_range_bounds[OF h] lo hi show ?thesis unfolding h t by simp
qed

section \<open>Properties of training\<close>

subsection \<open>Tables\<close>

lemma length_pick: "length xs = length keep \<Longrightarrow> length (pick keep xs) = length (filter id keep)"
  unfolding pick_def by (induction xs keep rule: list_induct2) auto

lemma slen_select_series:
  "slen s = length keep \<Longrightarrow> slen (select_series keep s) = length (filter id keep)"
  by (cases s) (simp_all add: slen_def length_pick)

lemma len_select_rows:
  assumes "rect df" "length keep = len df"
  shows "len (select_rows df keep) = length (filter id keep)"
proof (cases df)
  case Nil
  with assms show ?thesis by (simp add: len_def select_rows_def)
next
  case (Cons a df')
  obtain c s where a: "a = (c, s)" by (cases a)
  have "slen s = length keep" using assms Cons a by (simp add: len_def)
  then show ?thesis using Cons a by (simp add: len_def select_rows_def slen_select_series)
qed

lemma columns_select_rows: "columns (select_rows df keep) = columns df"
  by (simp add: columns_def select_rows_def case_prod_unfold)

lemma dropna_ok:
  assumes "set labels \<subseteq> set (columns df)"
  shows "dropna df labels = Inr (select_rows df (map (complete_row df labels) [0..<len df]))"
proof -
  have "filter (\<lambda>c. c \<notin> set (columns df)) labels = []"
    using assms by (auto simp: filter_empty_conv)
  then show ?thesis by (simp add: dropna_def)
qed

lemma dropna_Inr:
  "dropna df labels = Inr c \<Longrightarrow> c = select_rows df (map (complete_row df labels) [0..<len df])"
  by (auto simp: dropna_def split: list.splits)

lemma dropna_columns: "dropna df labels = Inr c \<Longrightarrow> columns c = columns df"
  by (auto dest!: dropna_Inr simp: columns_select_rows)

lemma len_dropna:
  assumes "rect df"
  shows "len (select_rows df (map (complete_row df labels) [0..<len df]))
         = length (filter (complete_row df labels) [0..<len df])"
proof -
  have "length (filter id (map (complete_row df labels) [0..<len df]))
        = length (filter (complete_row df labels) [0..<len df])"
    by (simp add: filter_map comp_def)
  then show ?thesis
    using len_select_rows[OF assms, of "map (complete_row df labels) [0..<len df]"] by simp
qed

subsection \<open>The example table\<close>

lemma motorcycles_no_missing:
  "filter (\<lambda>f. f \<notin> set (columns (motorcycles n))) (features_for ''motorcycle'') = []"
  by (simp add: columns_def motorcycles_def features_for_def)

lemma motorcycles_columns:
  "set (features_for ''motorcycle'') \<subseteq> set (columns (motorcycles n)) \<and>
   ''price'' \<in> set (columns (motorcycles n))"
  by (simp add: columns_def motorcycles_def features_for_def)

lemma motorcycles_99_rect: "rect (motorcycles 99)"
  by code_simp

lemma motorcycles_100_rect: "rect (motorcycles 100)"
  by code_simp

lemma motorcycles_99_complete:
  "length (filter (complete_row (motorcycles 99) (features_for ''motorcycle'' @ [''price'']))
     [0..<len (motorcycles 99)]) = 99"
  by code_simp

lemma motorcycles_100_complete:
  "length (filter (complete_row (motorcycles 100) (features_for ''motorcycle'' @ [''price'']))
     [0..<len (motorcycles 100)]) = 100"
  by code_simp

lemma motorcycles_100_dropna:
  "dropna (motorcycles 100) (features_for ''motorcycle'' @ [''price'']) = Inr (motorcycles 100)"
  by code_simp

lemma motorcycles_unpriced_100_dropna:
  "dropna (motorcycles_unpriced 100) (features_for ''motorcycle'' @ [''price''])
   = Inr (motorcycles 100)"
  by code_simp

lemma motorcycles_100_encode:
  "encode_columns (motorcycles 100) [] (features_for ''motorcycle'')
   = Inr ([(''make'', Numeric (replicate 100 (Some 0))),
           (''model'', Numeric (replicate 100 (Some 0))),
           (''year'', Numeric (replicate 100 (Some 2018))),
           (''price'', Numeric (replicate 100 (Some 4000)))],
          [(''make'', LabelEncoder [''Honda'']), (''model'', LabelEncoder [''Wave''])])"
  by code_simp

lemma motorcycles_100_len: "len (motorcycles 100) = 100"
  by (simp add: len_def motorcycles_def slen_def)

lemma train_motorcycles_100:
  "train_price_prediction_model toy_sklearn g (motorcycles 100) ''motorcycle''
   = Inr trained_motorcycles"
proof -
  have "train_price_prediction_model toy_sklearn g (motorcycles 100) ''motorcycle''
        = fit_and_score toy_sklearn g
            [(''make'', Numeric (replicate 100 (Some 0))),
             (''model'', Numeric (replicate 100 (Some 0))),
             (''year'', Numeric (replicate 100 (Some 2018))),
             (''price'', Numeric (replicate 100 (Some 4000)))]
            [(''make'', LabelEncoder [''Honda'']), (''model'', LabelEncoder [''Wave''])]
            (features_for ''motorcycle'')"
    by (simp add: train_price_prediction_model_def Let_def motorcycles_no_missing
        motorcycles_100_dropna motorcycles_100_len motorcycles_100_encode)
  then show ?thesis
    by (simp add: fit_and_score_def and_then_def project_def getitem_def toy_sklearn_def
        constant_regressor_def trained_motorcycles_def Let_def features_for_def columns_def)
qed

lemma toy_sklearn_reproducible: "reproducible toy_sklearn"
  by (simp add: reproducible_def toy_sklearn_def)

subsection \<open>The gates\<close>

text \<open>
  C5. If some feature of the category's schema is not a column of the table, training
  returns no model: it stops with the warning "Missing features", which lists exactly
  the schema features that are not columns, in schema order.
\<close>

theorem train_missing_features:
  assumes "\<not> set (features_for vehicle_type) \<subseteq> set (columns df)"
  shows "\<exists>missing.
           train_price_prediction_model lib g df vehicle_type
             = Inl (MissingFeatures vehicle_type missing) \<and>
           level_of (MissingFeatures vehicle_type missing) = Warning \<and>
           missing = filter (\<lambda>f. f \<notin> set (columns df)) (features_for vehicle_type) \<and>
           set missing = set (features_for vehicle_type) - set (columns df)"
proof -
  let ?missing = "filter (\<lambda>f. f \<notin> set (columns df)) (features_for vehicle_type)"
  have "?missing \<noteq> []" using assms by (auto simp: filter_empty_conv)
  then have "train_price_prediction_model lib g df vehicle_type
               = Inl (MissingFeatures vehicle_type ?missing)"
    by (simp add: train_price_prediction_model_def Let_def)
  then show ?thesis by auto
qed

theorem train_missing_features_witness:
  "train_price_prediction_model toy_sklearn 0
     [(''make'', Object [Some ''Honda'']), (''model'', Object [Some ''Civic'']),
      (''year'', Numeric [Some 2018]), (''mileage_avg'', Numeric [Some 50000]),
      (''transmission'', Object [Some ''Auto'']), (''price'', Numeric [Some 70000])] ''car''
   = Inl (MissingFeatures ''car'' [''fuel_type''])"
proof -
  let ?df = "[(''make'', Object [Some ''Honda'']), (''model'', Object [Some ''Civic'']),
      (''year'', Numeric [Some 2018]), (''mileage_avg'', Numeric [Some 50000]),
      (''transmission'', Object [Some ''Auto'']), (''price'', Numeric [Some 70000])]"
  have h: "\<not> set (features_for ''car'') \<subseteq> set (columns ?df)"
    by (simp add: features_for_def columns_def)
  show ?thesis
    using train_missing_features[OF h, of toy_sklearn 0]
    by (simp add: features_for_def columns_def)
qed

lemma fit_and_score_not_gate:
  "fit_and_score lib g m le fs \<noteq> Inl (InsufficientData vt k)"
  by (auto simp: fit_and_score_def split: sum.splits prod.splits)

text \<open>
  C2. Let the table be rectangular and have the schema features and \<^verbatim>\<open>price\<close> as
  columns, and let \<open>n\<close> be the number of its rows with no missing value in any of them.
  If \<open>n < 100\<close>, training returns no model and reports "Insufficient data" with that
  count, as a warning. If \<open>100 \<le> n\<close>, training goes on to encode, split and fit the
  cleaned rows, and whatever it then returns is not the insufficient-data failure.
\<close>

theorem insufficient_data_gate:
  assumes "rect df" "set (features_for vehicle_type) \<subseteq> set (columns df)"
    "''price'' \<in> set (columns df)"
  shows "let labels = features_for vehicle_type @ [''price''];
             n = length (filter (complete_row df labels) [0..<len df]);
             cleaned = select_rows df (map (complete_row df labels) [0..<len df])
         in (n < 100 \<longrightarrow>
               train_price_prediction_model lib g df vehicle_type
                 = Inl (InsufficientData vehicle_type n) \<and>
               level_of (InsufficientData vehicle_type n) = Warning) \<and>
            (100 \<le> n \<longrightarrow>
               train_price_prediction_model lib g df vehicle_type =
                 (case encode_columns cleaned [] (features_for vehicle_type) of
                    Inl e \<Rightarrow> Inl (DataPreparationError e)
                  | Inr (model_df, le_dict) \<Rightarrow>
                      fit_and_score lib g model_df le_dict (features_for vehicle_type)) \<and>
               (\<forall>k. train_price_prediction_model lib g df vehicle_type
                      \<noteq> Inl (InsufficientData vehicle_type k)))"
proof -
  have nomiss: "filter (\<lambda>f. f \<notin> set (columns df)) (features_for vehicle_type) = []"
    using assms(2) by (auto simp: filter_empty_conv)
  have "set (features_for vehicle_type @ [''price'']) \<subseteq> set (columns df)"
    using assms by simp
  note d = dropna_ok[OF this]
  show ?thesis
    unfolding Let_def train_price_prediction_model_def nomiss d
    by (auto simp: len_dropna[OF assms(1)] fit_and_score_not_gate split: sum.splits)
qed

theorem insufficient_data_gate_witness:
  "train_price_prediction_model toy_sklearn 0 (motorcycles 99) ''motorcycle''
     = Inl (InsufficientData ''motorcycle'' 99) \<and>
   train_price_prediction_model toy_sklearn 0 (motorcycles 100) ''motorcycle''
     \<noteq> Inl (InsufficientData ''motorcycle'' 100)"
proof -
  have c99: "set (features_for ''motorcycle'') \<subseteq> set (columns (motorcycles 99))"
    and p99: "''price'' \<in> set (columns (motorcycles 99))"
    and c100: "set (features_for ''motorcycle'') \<subseteq> set (columns (motorcycles 100))"
    and p100: "''price'' \<in> set (columns (motorcycles 100))"
    using motorcycles_columns by blast+
  have "train_price_prediction_model toy_sklearn 0 (motorcycles 99) ''motorcycle''
     = Inl (InsufficientData ''motorcycle'' 99)"
    using insufficient_data_gate[OF motorcycles_99_rect c99 p99, of toy_sklearn 0]
    by (simp add: Let_def motorcycles_99_complete)
  moreover have "train_price_prediction_model toy_sklearn 0 (motorcycles 100) ''motorcycle''
     \<noteq> Inl (InsufficientData ''motorcycle'' 100)"
    using insufficient_data_gate[OF motorcycles_100_rect c100 p100, of toy_sklearn 0]
    unfolding Let_def motorcycles_100_complete by blast
  ultimately show ?thesis by simp
qed

subsection \<open>Encoder tables\<close>














subsection \<open>Repeatability\<close>

lemma fit_and_score_reproducible:
  assumes "reproducible lib"
  shows "fit_and_score lib g1 m le fs = fit_and_score lib g2 m le fs"
proof -
  have a: "\<And>X y. train_test_split lib g1 X y 0.2 (Some 42)
                 = train_test_split lib g2 X y 0.2 (Some 42)"
    using assms unfolding reproducible_def by blast
  have b: "\<And>X y. RandomForestRegressor_fit lib g1 100 (Some 42) X y
                 = RandomForestRegressor_fit lib g2 100 (Some 42) X y"
    using assms unfolding reproducible_def by blast
  show ?thesis unfolding fit_and_score_def a b ..
qed

text \<open>
  C6. Let scikit-learn be reproducible under an integer \<^verbatim>\<open>random_state\<close>. Two runs of
  training whose tables have the same cleaned subset for the same category return the
  same result, whatever the state of the ambient generator in each run: the same
  failure, or the same scores and a model and encoders with which \<^verbatim>\<open>predict_price\<close>
  returns the same for every input.
\<close>

theorem train_repeatable:
  assumes "reproducible lib"
    and "dropna df1 (features_for vehicle_type @ [''price'']) = Inr cleaned"
    and "dropna df2 (features_for vehicle_type @ [''price'']) = Inr cleaned"
  shows "train_price_prediction_model lib g1 df1 vehicle_type
           = train_price_prediction_model lib g2 df2 vehicle_type \<and>
         (\<forall>t1 t2. train_price_prediction_model lib g1 df1 vehicle_type = Inr t1 \<longrightarrow>
                  train_price_prediction_model lib g2 df2 vehicle_type = Inr t2 \<longrightarrow>
            train_score t1 = train_score t2 \<and> test_score t1 = test_score t2 \<and>
            (\<forall>inputs. predict_price (model t1) (label_encoders t1) (schema t1) inputs
                      = predict_price (model t2) (label_encoders t2) (schema t2) inputs))"
proof -
  have c: "columns df1 = columns df2"
    using dropna_columns[OF assms(2)] dropna_columns[OF assms(3)] by simp
  have "train_price_prediction_model lib g1 df1 vehicle_type
           = train_price_prediction_model lib g2 df2 vehicle_type"
    unfolding train_price_prediction_model_def Let_def c assms(2) assms(3)
    by (simp add: fit_and_score_reproducible[OF assms(1), of g1 _ _ _ g2]
        split: sum.splits prod.splits)
  then show ?thesis by auto
qed

theorem train_repeatable_witness:
  "train_price_prediction_model toy_sklearn 0 (motorcycles 100) ''motorcycle''
     = train_price_prediction_model toy_sklearn 7 (motorcycles_unpriced 100) ''motorcycle'' \<and>
   train_price_prediction_model toy_sklearn 7 (motorcycles_unpriced 100) ''motorcycle''
     = Inr trained_motorcycles"
  using train_repeatable[OF toy_sklearn_reproducible motorcycles_100_dropna
      motorcycles_unpriced_100_dropna, of 0 7] train_motorcycles_100[of 0]
  by simp

subsection \<open>The caller's table\<close>

lemma encode_columns_store_frame:
  assumes "r < length h" "n \<le> r" "encode_columns_store h r le fs = (res, h')"
  shows "length h' = length h \<and> take n h' = take n h"
  using assms
proof (induction fs arbitrary: h le)
  case Nil
  then show ?case by simp
next
  case (Cons col rest)
  show ?case
  proof (cases "map_of (h ! r) col")
    case None
    with Cons.prems show ?thesis by simp
  next
    case (Some s)
    show ?thesis
    proof (cases s)
      case (Numeric xs)
      with Some Cons.prems have "encode_columns_store h r le rest = (res, h')" by simp
      from Cons.IH[OF Cons.prems(1,2) this] show ?thesis .
    next
      case (Object xs)
      obtain enc codes where ft: "fit_transform (astype_str xs) = (enc, codes)"
        by (cases "fit_transform (astype_str xs)")
      let ?h1 = "h[r := setitem (h ! r) col (Numeric (map (\<lambda>c. Some (real c)) codes))]"
      have e: "encode_columns_store ?h1 r (AList.update col enc le) rest = (res, h')"
        using Cons.prems(3) Some Object ft by simp
      have "r < length ?h1" using Cons.prems(1) by simp
      from Cons.IH[OF this Cons.prems(2) e] Cons.prems(2) show ?thesis by simp
    qed
  qed
qed

lemma encode_columns_store_agrees:
  assumes "r < length h"
  shows "fst (encode_columns_store h r le fs) = map_sum id snd (encode_columns (h ! r) le fs) \<and>
         (\<forall>df' le'. encode_columns (h ! r) le fs = Inr (df', le') \<longrightarrow>
            snd (encode_columns_store h r le fs) = h[r := df'])"
  using assms
proof (induction fs arbitrary: h le)
  case Nil
  then show ?case by simp
next
  case (Cons col rest)
  show ?case
  proof (cases "map_of (h ! r) col")
    case None
    then show ?thesis by simp
  next
    case (Some s)
    show ?thesis
    proof (cases s)
      case (Numeric xs)
      with Some Cons.IH[OF Cons.prems, of le] show ?thesis by simp
    next
      case (Object xs)
      obtain enc codes where ft: "fit_transform (astype_str xs) = (enc, codes)"
        by (cases "fit_transform (astype_str xs)")
      let ?d1 = "setitem (h ! r) col (Numeric (map (\<lambda>c. Some (real c)) codes))"
      let ?h1 = "h[r := ?d1]"
      have r1: "r < length ?h1" using Cons.prems by simp
      have n1: "?h1 ! r = ?d1" using Cons.prems by simp
      from Cons.IH[OF r1, of "AList.update col enc le"] show ?thesis
        using Some Object ft unfolding n1 by simp
    qed
  qed
qed

lemma fit_and_score_project_Inl:
  "project m fs = Inl e \<Longrightarrow> fit_and_score lib g m le fs = Inl (DataPreparationError e)"
  by (simp add: fit_and_score_def and_then_def)

lemma train_store_agrees:
  assumes "df < length h"
  shows "fst (train_price_prediction_model_store lib g h df vt)
           = train_price_prediction_model lib g (h ! df) vt"
proof (cases "filter (\<lambda>f. f \<notin> set (columns (h ! df))) (features_for vt) = []")
  case False
  then show ?thesis
    by (simp add: train_price_prediction_model_store_def train_price_prediction_model_def
        alloc_def Let_def)
next
  case nomiss: True
  show ?thesis
  proof (cases "dropna (h ! df) (features_for vt @ [''price''])")
    case (Inl e)
    with nomiss show ?thesis
      by (simp add: train_price_prediction_model_store_def train_price_prediction_model_def
          alloc_def Let_def)
  next
    case (Inr cleaned)
    let ?h2 = "h @ [h ! df, cleaned]"
    let ?r = "Suc (length h)"
    have r: "?r < length ?h2" and n: "?h2 ! ?r = cleaned" by (simp_all add: nth_append)
    note ag = encode_columns_store_agrees[OF r, of "[]" "features_for vt", unfolded n]
    show ?thesis
    proof (cases "len cleaned < 100")
      case True
      with nomiss Inr show ?thesis
        by (simp add: train_price_prediction_model_store_def train_price_prediction_model_def
            alloc_def Let_def nth_append)
    next
      case big: False
      obtain res h3 where st: "encode_columns_store ?h2 ?r [] (features_for vt) = (res, h3)"
        by (cases "encode_columns_store ?h2 ?r [] (features_for vt)")
      show ?thesis
      proof (cases "encode_columns cleaned [] (features_for vt)")
        case (Inl e)
        with ag st have "res = Inl e" by simp
        with nomiss Inr big st Inl show ?thesis
          by (simp add: train_price_prediction_model_store_def
              train_price_prediction_model_def alloc_def Let_def nth_append)
      next
        case (Inr p)
        obtain df' le' where p: "p = (df', le')" by (cases p)
        from ag st Inr p have res: "res = Inr le'" and h3: "h3 = ?h2[?r := df']" by simp_all
        have h3r: "h3 ! ?r = df'" unfolding h3 by simp
        have l3: "length h3 = Suc (Suc (length h))" unfolding h3 by simp
        show ?thesis
        proof (cases "project df' (features_for vt)")
          case (Inl e)
          with nomiss \<open>dropna (h ! df) (features_for vt @ [''price'']) = Inr cleaned\<close>
            big st Inr p res h3r show ?thesis
            by (simp add: train_price_prediction_model_store_def
                train_price_prediction_model_def alloc_def Let_def nth_append
                fit_and_score_project_Inl)
        next
          case (Inr X)
          with nomiss \<open>dropna (h ! df) (features_for vt @ [''price'']) = Inr cleaned\<close>
            big st \<open>encode_columns cleaned [] (features_for vt) = Inr p\<close> p res h3r l3
          show ?thesis
            by (simp add: train_price_prediction_model_store_def
                train_price_prediction_model_def alloc_def Let_def nth_append)
        qed
      qed
    qed
  qed
qed

text \<open>
  C10. Training writes only into table objects that it allocated itself. Whatever it
  returns, every object that was in the store before the call, the caller's table among
  them, is afterwards what it was before; and the result is the one computed from the
  caller's table.
\<close>

theorem train_leaves_caller_table:
  assumes "df < length h"
  shows "take (length h) (snd (train_price_prediction_model_store lib g h df vehicle_type)) = h \<and>
         snd (train_price_prediction_model_store lib g h df vehicle_type) ! df = h ! df \<and>
         fst (train_price_prediction_model_store lib g h df vehicle_type)
           = train_price_prediction_model lib g (h ! df) vehicle_type"
proof -
  let ?h' = "snd (train_price_prediction_model_store lib g h df vehicle_type)"
  have k: "take (length h) h' = h \<and> length h' = Suc (Suc (length h))"
    if "encode_columns_store (h @ [a, b]) (Suc (length h)) le fs = (res, h')"
    for a b le fs res h'
    using encode_columns_store_frame[of "Suc (length h)" "h @ [a, b]" "length h" le fs res h']
      that by simp
  have t: "take (length h) ?h' = h"
    unfolding train_price_prediction_model_store_def alloc_def Let_def
    by (auto simp: nth_append split: sum.splits prod.splits dest: k)
  have "take (length h) ?h' ! df = ?h' ! df" using assms by simp
  with t have "?h' ! df = h ! df" by simp
  with t train_store_agrees[OF assms] show ?thesis by simp
qed

theorem train_leaves_caller_table_witness:
  "snd (train_price_prediction_model_store toy_sklearn 0 [motorcycles 100] 0 ''motorcycle'') ! 0
     = motorcycles 100 \<and>
   fst (train_price_prediction_model_store toy_sklearn 0 [motorcycles 100] 0 ''motorcycle'')
     = Inr trained_motorcycles"
proof -
  have h: "0 < length [motorcycles 100]" by simp
  show ?thesis
    using train_leaves_caller_table[OF h, of toy_sklearn 0 "''motorcycle''"]
      train_motorcycles_100[of 0]
    by simp
qed

section \<open>Properties of the similar listings\<close>

lemma pick_map: "pick (map P xs) xs = filter P xs"
  unfolding pick_def by (induction xs) auto

lemma pick_map2: "pick keep (map f xs) = map f (pick keep xs)"
  unfolding pick_def
  by (induction xs arbitrary: keep) (auto simp: zip_Cons1 split: list.splits)

lemma set_pick: "set (pick keep xs) \<subseteq> set xs"
  unfolding pick_def by (auto dest: set_zip_leftD)

lemma pick_snoc:
  "length xs = length keep \<Longrightarrow>
   pick (keep @ [b]) (xs @ [x]) = pick keep xs @ (if b then [x] else [])"
  by (simp add: pick_def)

lemma pick_nth:
  "length xs = length keep \<Longrightarrow> pick keep xs = map ((!) xs) (pick keep [0..<length xs])"
proof (induction xs arbitrary: keep rule: rev_induct)
  case Nil
  then show ?case by (simp add: pick_def)
next
  case (snoc x xs)
  then obtain b keep' where k: "keep = keep' @ [b]" and l: "length xs = length keep'"
    by (cases keep rule: rev_cases) auto
  have ih: "pick keep' xs = map ((!) xs) (pick keep' [0..<length xs])" by (rule snoc.IH[OF l])
  have lt: "\<forall>i\<in>set (pick keep' [0..<length xs]). i < length xs"
    using set_pick[of keep' "[0..<length xs]"] by auto
  have m: "map ((!) (xs @ [x])) (pick keep' [0..<length xs]) = map ((!) xs) (pick keep' [0..<length xs])"
    using lt by (auto simp: nth_append)
  have "pick keep' [0..<length xs] @ (if b then [length xs] else [])
        = pick (keep' @ [b]) ([0..<length xs] @ [length xs])"
    using l by (simp add: pick_snoc)
  then have p: "pick keep [0..<length (xs @ [x])] = pick keep' [0..<length xs] @ (if b then [length xs] else [])"
    unfolding k by simp
  show ?case unfolding p unfolding k using l ih m by (simp add: pick_snoc nth_append)
qed

lemma cells_select_series: "cells (select_series keep s) = pick keep (cells s)"
  by (cases s) (simp_all add: pick_map2)

lemma rectD: "rect df \<Longrightarrow> (c, s) \<in> set df \<Longrightarrow> length (cells s) = len df"
  by (auto simp: rect_def list_all_iff slen_def)

lemma rows_select_rows:
  assumes "rect df" "length keep = len df"
  shows "rows (select_rows df keep) = pick keep (rows df)"
proof -
  let ?idx = "pick keep [0..<len df]"
  have li: "length ?idx = length (filter id keep)" using assms(2) by (simp add: length_pick)
  have l: "len (select_rows df keep) = length ?idx"
    using len_select_rows[OF assms] li by simp
  have ce: "cells (select_series keep s) ! j = cells s ! (?idx ! j)"
    if "(c, s) \<in> set df" "j < length ?idx" for c s j
  proof -
    have ls: "length (cells s) = length keep" using rectD[OF assms(1) that(1)] assms(2) by simp
    have "pick keep (cells s) = map ((!) (cells s)) (pick keep [0..<length (cells s)])"
      by (rule pick_nth[OF ls])
    then show ?thesis using that(2) ls assms(2) by (simp add: cells_select_series)
  qed
  have "row_at (select_rows df keep) j = row_at df (?idx ! j)" if "j < length ?idx" for j
    using ce that by (auto simp: row_at_def select_rows_def)
  then have "rows (select_rows df keep) = map (row_at df) ?idx"
    unfolding rows_def l by (intro nth_equalityI) auto
  also have "\<dots> = pick keep (rows df)"
    unfolding rows_def by (simp add: pick_map2)
  finally show ?thesis .
qed


lemma cell_eq_cell_of: "cell_eq c v \<longleftrightarrow> c = cell_of v"
  by (cases c; cases v) auto

lemma map_of_row_at: "map_of (row_at df i) c = map_option (\<lambda>s. cells s ! i) (map_of df c)"
  unfolding row_at_def by (induction df) auto

lemma mask_and_nth:
  "length xs = n \<Longrightarrow> length ys = n \<Longrightarrow> mask_and xs ys = map (\<lambda>i. xs ! i \<and> ys ! i) [0..<n]"
  by (auto intro!: nth_equalityI simp: mask_and_def)

lemma between_Numeric:
  "between (Numeric ys) lo hi = Inr (map (cell_between lo hi) (cells (Numeric ys)))"
proof -
  have "\<not> list_ex (\<lambda>c. case c of Str _ \<Rightarrow> True | _ \<Rightarrow> False) (cells (Numeric ys))"
    by (auto simp: list_ex_iff split: option.splits)
  then show ?thesis by (simp add: between_def)
qed

lemma cell_between_case:
  "(case c of Num v \<Rightarrow> lo \<le> v \<and> v \<le> hi | _ \<Rightarrow> False) = cell_between lo hi c"
  by (cases c) auto

lemma map_of_len: "rect df \<Longrightarrow> map_of df c = Some s \<Longrightarrow> length (cells s) = len df"
  by (auto dest: map_of_SomeD rectD)

lemma similar_filter_rows:
  assumes r: "rect df"
    and mk: "map_of df ''make'' = Some make_col" "map_of inputs ''make'' = Some make_in"
    and md: "map_of df ''model'' = Some model_col" "map_of inputs ''model'' = Some model_in"
    and yr: "map_of df ''year'' = Some (Numeric ys)" "map_of inputs ''year'' = Some (PyInt year_in)"
    and car: "vehicle_type = ''car'' \<Longrightarrow>
        ''mileage_avg'' \<in> set features \<and> map_of df ''mileage_avg'' = Some (Numeric ms) \<and>
        map_of inputs ''mileage_avg'' = Some (PyInt mileage_in)"
  shows "similar_filter df vehicle_type features inputs
         = Inr (map (comparable vehicle_type make_in model_in year_in mileage_in) (rows df))"
proof -
  let ?n = "len df"
  let ?A = "series_eq make_col make_in"
  let ?B = "series_eq model_col model_in"
  let ?C = "map (cell_between (of_int year_in - 2) (of_int year_in + 2)) (cells (Numeric ys))"
  let ?D = "map (cell_between (of_int mileage_in - 20000) (of_int mileage_in + 20000)) (cells (Numeric ms))"
  have lA: "length ?A = ?n" and lB: "length ?B = ?n" and lC: "length ?C = ?n"
    using map_of_len[OF r mk(1)] map_of_len[OF r md(1)] map_of_len[OF r yr(1)]
    by (simp_all add: series_eq_def)
  let ?filt = "mask_and (mask_and ?A ?B) ?C"
  have lf: "length ?filt = ?n" using lA lB lC by (simp add: mask_and_def)
  have base: "?filt ! i \<longleftrightarrow> comparable ''motorcycle'' make_in model_in year_in mileage_in (row_at df i)"
    if "i < ?n" for i
    using that lA lB lC mk md yr
    by (simp add: mask_and_def comparable_def map_of_row_at series_eq_def cell_eq_cell_of
        cell_between_case del: cells.simps)
  show ?thesis
  proof (cases "vehicle_type = ''car''")
    case False
    have "similar_filter df vehicle_type features inputs = Inr ?filt"
      using False mk md yr
      by (simp add: similar_filter_def and_then_def getitem_def dict_get_def between_Numeric Let_def
          del: cells.simps)
    moreover have "?filt = map (comparable vehicle_type make_in model_in year_in mileage_in) (rows df)"
      using lf base False by (auto intro!: nth_equalityI simp: rows_def comparable_def)
    ultimately show ?thesis by simp
  next
    case True
    note c = car[OF True]
    have lD: "length ?D = ?n" using map_of_len[OF r conjunct1[OF conjunct2[OF c]]] by simp
    have "similar_filter df vehicle_type features inputs = Inr (mask_and ?filt ?D)"
      using True mk md yr c
      by (simp add: similar_filter_def and_then_def getitem_def dict_get_def between_Numeric Let_def
          del: cells.simps)
    moreover have "mask_and ?filt ?D = map (comparable vehicle_type make_in model_in year_in mileage_in) (rows df)"
      using lf lD base True c
      by (auto intro!: nth_equalityI simp: rows_def comparable_def mask_and_def map_of_row_at
          cell_between_case simp del: cells.simps)
    ultimately show ?thesis by simp
  qed
qed


lemma project_ok:
  assumes "set cols \<subseteq> set (columns df)"
  shows "project df cols = Inr (List.map_filter (\<lambda>c. map_option (Pair c) (map_of df c)) cols)"
proof -
  have "filter (\<lambda>c. c \<notin> set (columns df)) cols = []"
    using assms by (auto simp: filter_empty_conv)
  then show ?thesis by (simp add: project_def)
qed

lemma row_at_projected:
  "row_at (List.map_filter (\<lambda>c. map_option (Pair c) (map_of df c)) cols) i
   = project_row cols (row_at df i)"
proof -
  have "project_row cols (row_at df i)
        = List.map_filter
            (\<lambda>c. map_option (Pair c) (map_option (\<lambda>s. cells s ! i) (map_of df c))) cols"
    by (simp add: project_row_def map_of_row_at)
  moreover have "row_at (List.map_filter (\<lambda>c. map_option (Pair c) (map_of df c)) cols) i
        = List.map_filter
            (\<lambda>c. map_option (Pair c) (map_option (\<lambda>s. cells s ! i) (map_of df c))) cols"
    by (induction cols) (auto simp: row_at_def split: option.splits)
  ultimately show ?thesis by simp
qed

lemma set_projected:
  "set (List.map_filter (\<lambda>c. map_option (Pair c) (map_of df c)) cols) \<subseteq> set df"
  by (auto simp: List.map_filter_def dest: map_of_SomeD)

lemma column_lookup: "c \<in> set (columns df) \<Longrightarrow> \<exists>s. map_of df c = Some s"
  by (cases "map_of df c") (auto simp: columns_def map_of_eq_None_iff)

lemma take_upt0: "take n [0..<m] = [0..<min n m]"
  by (cases "n \<le> m") (simp_all add: min_def)

lemma len_projected:
  assumes "rect df" "set cols \<subseteq> set (columns df)" "cols \<noteq> []"
  shows "len (List.map_filter (\<lambda>c. map_option (Pair c) (map_of df c)) cols) = len df"
proof -
  let ?P = "List.map_filter (\<lambda>c. map_option (Pair c) (map_of df c)) cols"
  obtain c cs where cols: "cols = c # cs" using assms(3) by (cases cols) auto
  then have "c \<in> set (columns df)" using assms(2) by simp
  then obtain s where s: "map_of df c = Some s"
    by (cases "map_of df c") (auto simp: columns_def map_of_eq_None_iff)
  then have "?P = (c, s) # List.map_filter (\<lambda>c. map_option (Pair c) (map_of df c)) cs"
    by (simp add: cols)
  then have "len ?P = slen s" by (simp add: len_def)
  then show ?thesis using map_of_len[OF assms(1) s] by (simp add: slen_def)
qed

lemma rows_projected:
  assumes "rect df" "set cols \<subseteq> set (columns df)" "cols \<noteq> []"
  shows "rows (List.map_filter (\<lambda>c. map_option (Pair c) (map_of df c)) cols)
         = map (project_row cols) (rows df)"
  unfolding rows_def len_projected[OF assms] by (simp add: row_at_projected)

lemma cells_take_series: "cells (take_series n s) = take n (cells s)"
  by (cases s) (simp_all add: take_map)

lemma len_head: "len (head n d) = min n (len d)"
  by (cases d) (auto simp: len_def head_def slen_def cells_take_series)

lemma rows_head: "rows (head n d) = take n (rows d)"
proof -
  have "row_at (head n d) i = row_at d i" if "i < n" for i
    using that by (auto simp: row_at_def head_def cells_take_series)
  then have "map (row_at (head n d)) [0..<min n (len d)] = map (row_at d) [0..<min n (len d)]"
    by simp
  then show ?thesis unfolding rows_def len_head by (simp add: take_map take_upt0)
qed

lemma df_empty_rows: "df_empty d \<longleftrightarrow> rows d = []"
  by (cases d) (auto simp: df_empty_def rows_def len_def)

lemma rect_select_rows:
  assumes "rect df" "length keep = len df"
  shows "rect (select_rows df keep)"
proof -
  have "slen (select_series keep s) = len (select_rows df keep)" if "(c, s) \<in> set df" for c s
    using slen_select_series[of s keep] rectD[OF assms(1) that] assms(2)
      len_select_rows[OF assms] by (simp add: slen_def)
  then show ?thesis by (auto simp: rect_def list_all_iff select_rows_def)
qed

text \<open>
  C4. Let the table be rectangular with a numeric \<^verbatim>\<open>year\<close> column (for cars also a
  numeric \<^verbatim>\<open>mileage_avg\<close> column) and with all the columns that the display selects,
  \<^verbatim>\<open>ad_url\<close> among them, and let the inputs hold a make, a model, an integer year and,
  for cars, an integer mileage. Then the filter is true exactly at the rows that satisfy
  the matching rule, the selected rows are these rows in table order, and what is shown
  is the first five of them, each cut down to the display columns; nothing is shown when
  there is none.
\<close>

theorem similar_listings_matching:
  assumes r: "rect df"
    and disp: "set (display_cols vehicle_type) \<subseteq> set (columns df)"
    and mk: "map_of inputs ''make'' = Some make_in"
    and md: "map_of inputs ''model'' = Some model_in"
    and yr: "map_of df ''year'' = Some (Numeric ys)" "map_of inputs ''year'' = Some (PyInt year_in)"
    and car: "vehicle_type = ''car'' \<Longrightarrow>
        map_of df ''mileage_avg'' = Some (Numeric ms) \<and>
        map_of inputs ''mileage_avg'' = Some (PyInt mileage_in)"
  shows "\<exists>filt out.
      similar_filter df vehicle_type (features_for vehicle_type) inputs = Inr filt \<and>
      rows (select_rows df filt)
        = filter (comparable vehicle_type make_in model_in year_in mileage_in) (rows df) \<and>
      similar_listings df vehicle_type (features_for vehicle_type) inputs = Inr out \<and>
      listings_of out
        = take 5 (map (project_row (display_cols vehicle_type))
            (filter (comparable vehicle_type make_in model_in year_in mileage_in) (rows df)))"
proof -
  let ?P = "comparable vehicle_type make_in model_in year_in mileage_in"
  let ?filt = "map ?P (rows df)"
  let ?sim = "select_rows df ?filt"
  have "''make'' \<in> set (columns df)" "''model'' \<in> set (columns df)"
    using disp by (auto simp: display_cols_def)
  then obtain make_col model_col where
    c: "map_of df ''make'' = Some make_col" "map_of df ''model'' = Some model_col"
    using column_lookup by blast
  have car': "vehicle_type = ''car'' \<Longrightarrow>
        ''mileage_avg'' \<in> set (features_for vehicle_type) \<and>
        map_of df ''mileage_avg'' = Some (Numeric ms) \<and>
        map_of inputs ''mileage_avg'' = Some (PyInt mileage_in)"
    using car by (simp add: features_for_def)
  have f: "similar_filter df vehicle_type (features_for vehicle_type) inputs = Inr ?filt"
    by (rule similar_filter_rows[OF r c(1) mk c(2) md yr car'])
  have lf: "length ?filt = len df" by (simp add: rows_def)
  have rs: "rows ?sim = filter ?P (rows df)"
    using rows_select_rows[OF r lf] by (simp add: pick_map)
  have rsim: "rect ?sim" by (rule rect_select_rows[OF r lf])
  have dsim: "set (display_cols vehicle_type) \<subseteq> set (columns ?sim)"
    using disp by (simp add: columns_select_rows)
  have ne: "display_cols vehicle_type \<noteq> []" by (simp add: display_cols_def)
  let ?shown = "List.map_filter (\<lambda>c. map_option (Pair c) (map_of ?sim c)) (display_cols vehicle_type)"
  have out: "similar_listings df vehicle_type (features_for vehicle_type) inputs
      = Inr (if df_empty ?sim then NoSimilarListings else SimilarListings (head 5 ?shown))"
    by (simp add: similar_listings_def f and_then_def Let_def project_ok[OF dsim])
  have "listings_of (if df_empty ?sim then NoSimilarListings else SimilarListings (head 5 ?shown))
        = take 5 (map (project_row (display_cols vehicle_type)) (filter ?P (rows df)))"
    using rows_projected[OF rsim dsim ne] rs by (simp add: rows_head df_empty_rows)
  with f rs out show ?thesis by blast
qed

theorem similar_listings_matching_witness:
  "\<exists>out. similar_listings civics ''car'' (features_for ''car'') civic_inputs = Inr out \<and>
     listings_of out =
       [[(''make'', Str ''Honda''), (''model'', Str ''Civic''), (''year'', Num 2019),
         (''price'', Num 70000), (''ad_url'', Str ''https://www.mudah.my/1''),
         (''mileage_avg'', Num 60000), (''transmission'', Str ''Auto''),
         (''fuel_type'', Str ''petrol'')]]"
proof -
  have r: "rect civics" by code_simp
  have d: "set (display_cols ''car'') \<subseteq> set (columns civics)"
    by (simp add: display_cols_def columns_def civics_def)
  have mk: "map_of civic_inputs ''make'' = Some (PyStr ''Honda'')"
    and md: "map_of civic_inputs ''model'' = Some (PyStr ''Civic'')"
    and yi: "map_of civic_inputs ''year'' = Some (PyInt 2018)"
    and mi: "map_of civic_inputs ''mileage_avg'' = Some (PyInt 50000)"
    by (simp_all add: civic_inputs_def)
  have yc: "map_of civics ''year'' = Some (Numeric [Some 2019, Some 2021])"
    and mc: "map_of civics ''mileage_avg'' = Some (Numeric [Some 60000, Some 60000])"
    by (simp_all add: civics_def)
  have car: "''car'' = ''car'' \<Longrightarrow>
      map_of civics ''mileage_avg'' = Some (Numeric [Some 60000, Some 60000]) \<and>
      map_of civic_inputs ''mileage_avg'' = Some (PyInt 50000)"
    using mc mi by simp
  have e: "take 5 (map (project_row (display_cols ''car''))
             (filter (comparable ''car'' (PyStr ''Honda'') (PyStr ''Civic'') 2018 50000)
                (rows civics)))
         = [[(''make'', Str ''Honda''), (''model'', Str ''Civic''), (''year'', Num 2019),
             (''price'', Num 70000), (''ad_url'', Str ''https://www.mudah.my/1''),
             (''mileage_avg'', Num 60000), (''transmission'', Str ''Auto''),
             (''fuel_type'', Str ''petrol'')]]"
    by code_simp
  from similar_listings_matching[OF r d mk md yc yi car] show ?thesis
    unfolding e by blast
qed

theorem similar_listings_display_counterexample:
  "comparable ''motorcycle'' (PyStr ''Honda'') (PyStr ''Wave'') 2018 0
     (row_at (motorcycles 1) 0) \<and>
   similar_listings (motorcycles 1) ''motorcycle'' (features_for ''motorcycle'') wave_inputs
     = Inl (KeyError [''ad_url''])"
  by code_simp

lemma pick_none: "\<not> list_ex id keep \<Longrightarrow> pick keep xs = []"
  unfolding pick_def by (auto simp: list_ex_iff filter_empty_conv dest: set_zip_rightD)

lemma df_empty_select_none:
  assumes "\<not> list_ex id keep"
  shows "df_empty (select_rows df keep)"
proof (cases df)
  case Nil
  then show ?thesis by (simp add: df_empty_def select_rows_def)
next
  case (Cons a df')
  obtain c s where "a = (c, s)" by (cases a)
  then show ?thesis using Cons
    by (cases s) (simp_all add: df_empty_def select_rows_def len_def slen_def pick_none[OF assms])
qed

text \<open>
  C8. When the filter can be evaluated and is true at no row, the outcome is "no similar
  listings", not an exception. An exception leaves this code only if the filter itself
  could not be evaluated or if the selection has at least one row.
\<close>

theorem no_similar_listings:
  "(similar_filter df vehicle_type features inputs = Inr filt \<longrightarrow> \<not> list_ex id filt \<longrightarrow>
      similar_listings df vehicle_type features inputs = Inr NoSimilarListings) \<and>
   (similar_listings df vehicle_type features inputs = Inl e \<longrightarrow>
      similar_filter df vehicle_type features inputs = Inl e \<or>
      (\<exists>filt. similar_filter df vehicle_type features inputs = Inr filt \<and>
         \<not> df_empty (select_rows df filt)))"
  by (auto simp: similar_listings_def and_then_def Let_def df_empty_select_none
      split: sum.splits if_splits)

theorem no_similar_listings_witness:
  "similar_filter (motorcycles 1) ''motorcycle'' (features_for ''motorcycle'') lagenda_inputs
     = Inr [False] \<and>
   similar_listings (motorcycles 1) ''motorcycle'' (features_for ''motorcycle'') lagenda_inputs
     = Inr NoSimilarListings"
proof -
  have f: "similar_filter (motorcycles 1) ''motorcycle'' (features_for ''motorcycle'')
             lagenda_inputs = Inr [False]"
    by code_simp
  have n: "\<not> list_ex id [False]" by simp
  show ?thesis
    using no_similar_listings[of "motorcycles 1" "''motorcycle''"
        "features_for ''motorcycle''" lagenda_inputs "[False]"] f n
    by blast
qed

section \<open>Properties of the loader and the pages\<close>

lemma pick_map2_zip: "pick keep (map2 f xs ys) = map2 f (pick keep xs) (pick keep ys)"
proof (induction keep arbitrary: xs ys)
  case Nil
  then show ?case by (simp add: pick_def)
next
  case (Cons k keep)
  show ?case
  proof (cases xs)
    case Nil
    then show ?thesis by (simp add: pick_def)
  next
    case xs: (Cons x xs')
    show ?thesis
    proof (cases ys)
      case Nil
      then show ?thesis by (simp add: pick_def)
    next
      case ys: (Cons y ys')
      from Cons.IH[of xs' ys'] show ?thesis unfolding xs ys by (simp add: pick_def)
    qed
  qed
qed

lemma as_float64_filter: "as_float64 (filter_numeric keep a) = pick keep (as_float64 a)"
  by (cases a) (simp_all add: pick_map2)

lemma add_numeric_filter:
  "add_numeric (filter_numeric keep a) (filter_numeric keep b) = filter_numeric keep (add_numeric a b)"
  by (cases a; cases b) (simp_all add: pick_map2_zip[symmetric] pick_map2[symmetric])

lemma mean_filter:
  "Float64 (div2 (add_numeric (filter_numeric keep a) (filter_numeric keep b)))
     = filter_numeric keep (Float64 (div2 (add_numeric a b)))"
  by (simp add: div2_def add_numeric_filter as_float64_filter pick_map2)

lemma map_of_filter_rows:
  "map_of (filter_rows keep df) c = map_option (filter_column keep) (map_of df c)"
  unfolding filter_rows_def by (simp add: map_of_map)

lemma process_vehicle_data_average:
  assumes "process_vehicle_data parse current_year df = Some df'"
    and "map_of df ''mileage_min'' = Some lo" and "map_of df ''mileage_max'' = Some hi"
  shows "map_of df' ''mileage_min'' = Some (Number (to_numeric parse lo)) \<and>
         map_of df' ''mileage_max'' = Some (Number (to_numeric parse hi)) \<and>
         map_of df' ''mileage_avg''
           = Some (Number (Float64 (div2 (add_numeric (to_numeric parse lo) (to_numeric parse hi)))))"
  using assms
  by (auto simp: process_vehicle_data_def Let_def update_conv'
      split: option.splits column.splits)

lemma load_car_data_average:
  assumes "load_car_data parse current_year (Some raw) = df" and "df \<noteq> []"
    and "map_of raw ''mileage_min'' = Some lo" and "map_of raw ''mileage_max'' = Some hi"
  shows "\<exists>a b. map_of df ''mileage_min'' = Some (Number a) \<and>
               map_of df ''mileage_max'' = Some (Number b) \<and>
               map_of df ''mileage_avg'' = Some (Number (Float64 (div2 (add_numeric a b))))"
proof -
  from assms(1,2) obtain df0 where
    p: "process_vehicle_data parse current_year df0 = Some df" and
    lo: "map_of df0 ''mileage_min'' = map_option (filter_column (listing_mask
           (to_numeric parse (the (map_of raw ''price'')))
           (to_numeric parse (the (map_of (AList.update ''price'' (Number (to_numeric parse (the (map_of raw ''price'')))) raw) ''year'')))
           1000000 current_year)) (map_of raw ''mileage_min'')" and
    hi: "map_of df0 ''mileage_max'' = map_option (filter_column (listing_mask
           (to_numeric parse (the (map_of raw ''price'')))
           (to_numeric parse (the (map_of (AList.update ''price'' (Number (to_numeric parse (the (map_of raw ''price'')))) raw) ''year'')))
           1000000 current_year)) (map_of raw ''mileage_max'')"
    by (auto simp: load_car_data_def Let_def update_conv' map_of_filter_rows
        split: option.splits)
  from process_vehicle_data_average[OF p] lo hi assms(3,4) show ?thesis by auto
qed


lemma process_vehicle_data_frame:
  assumes "process_vehicle_data parse current_year df = Some df'"
    and "c \<noteq> ''age''" and "c \<noteq> ''mileage_min''" and "c \<noteq> ''mileage_max''"
    and "c \<noteq> ''mileage_avg''"
  shows "map_of df' c = map_of df c"
  using assms
  by (auto simp: process_vehicle_data_def Let_def update_conv'
      split: option.splits column.splits)

text \<open>The loader keeps a listing only when its price lies strictly between 0 and 1000000.\<close>

lemma pick_kept:
  "x \<in> set (pick keep xs) \<Longrightarrow> \<exists>i. i < length xs \<and> i < length keep \<and> xs ! i = x \<and> keep ! i"
  unfolding pick_def by (auto simp: in_set_zip)

lemma mask_and_true:
  "i < length (mask_and ms ns) \<Longrightarrow> mask_and ms ns ! i \<Longrightarrow> ms ! i \<and> ns ! i"
  by (simp add: mask_and_def)

lemma listing_mask_price:
  assumes "i < length (listing_mask price year limit current_year)"
    and "listing_mask price year limit current_year ! i"
  shows "number_gt (numbers price ! i) 0 \<and> number_lt (numbers price ! i) limit"
proof -
  let ?gt = "map (\<lambda>p. number_gt p 0) (numbers price)"
  let ?lt = "map (\<lambda>p. number_lt p limit) (numbers price)"
  obtain rest where m: "listing_mask price year limit current_year = mask_and ?gt (mask_and ?lt rest)"
    by (simp add: listing_mask_def)
  from assms have l: "i < length (mask_and ?gt (mask_and ?lt rest))"
    and t: "mask_and ?gt (mask_and ?lt rest) ! i" unfolding m by simp_all
  from l have l1: "i < length (numbers price)" and l2: "i < length (mask_and ?lt rest)"
    by (simp_all add: mask_and_def)
  from mask_and_true[OF l t] have g: "?gt ! i" and t2: "mask_and ?lt rest ! i" by simp_all
  from mask_and_true[OF l2 t2] have "?lt ! i" by simp
  with g l1 show ?thesis by simp
qed

lemma numbers_filter: "numbers (filter_numeric keep a) = pick keep (numbers a)"
  by (cases a) (simp_all add: pick_map2)

lemma load_car_data_prices:
  assumes "map_of (load_car_data parse current_year csv) ''price'' = Some c"
  shows "\<exists>price. c = Number price \<and>
           (\<forall>x \<in> set (numbers price). number_gt x 0 \<and> number_lt x 1000000)"
proof -
  from assms obtain price year df0 df where
    p: "process_vehicle_data parse current_year df0 = Some df" and
    l: "load_car_data parse current_year csv = df" and
    c0: "map_of df0 ''price''
           = Some (Number (filter_numeric (listing_mask price year 1000000 current_year) price))"
    by (auto simp: load_car_data_def Let_def update_conv' map_of_filter_rows
        split: option.splits)
  let ?keep = "listing_mask price year 1000000 current_year"
  from process_vehicle_data_frame[OF p, of "''price''"] c0 assms l
  have c: "c = Number (filter_numeric ?keep price)" by simp
  have "number_gt x 0 \<and> number_lt x 1000000" if "x \<in> set (numbers (filter_numeric ?keep price))" for x
  proof -
    from that have "x \<in> set (pick ?keep (numbers price))" by (simp add: numbers_filter)
    from pick_kept[OF this] obtain i where
      "i < length ?keep" "numbers price ! i = x" "?keep ! i" by blast
    with listing_mask_price[of i price year 1000000 current_year] show ?thesis by simp
  qed
  with c show ?thesis by blast
qed

text \<open>
  An empty cell and text that the parser rejects become NaN under \<^verbatim>\<open>to_numeric\<close>.
\<close>

lemma all_ints_length: "all_ints ps = Some ws \<Longrightarrow> length ws = length ps"
  by (induction ps arbitrary: ws rule: all_ints.induct) auto

lemma all_ints_None: "i < length ps \<Longrightarrow> ps ! i = None \<Longrightarrow> all_ints ps = None"
proof (induction ps arbitrary: i rule: all_ints.induct)
  case (2 w ps)
  then show ?case by (cases i) auto
qed auto

lemma to_numeric_unparsed:
  assumes "i < length xs" and "xs ! i = None \<or> (\<exists>s. xs ! i = Some s \<and> parse s = None)"
  shows "values_of (to_numeric parse (Text xs)) ! i = NotANumber"
proof -
  let ?ps = "map (\<lambda>x. Option.bind x parse) xs"
  from assms have n: "?ps ! i = None" by auto
  with assms(1) have "all_ints ?ps = None" by (intro all_ints_None[of i]) simp_all
  then have "to_numeric parse (Text xs) = Float64 (map coerce ?ps)"
    by (simp add: to_numeric_def Let_def)
  with assms(1) n show ?thesis by (simp add: values_of_def)
qed

lemma filter_rows_average:
  assumes "map_of df ''mileage_min'' = Some (Number a)"
    and "map_of df ''mileage_max'' = Some (Number b)"
    and "map_of df ''mileage_avg'' = Some (Number (Float64 (div2 (add_numeric a b))))"
  shows "map_of (filter_rows keep df) ''mileage_min'' = Some (Number (filter_numeric keep a)) \<and>
         map_of (filter_rows keep df) ''mileage_max'' = Some (Number (filter_numeric keep b)) \<and>
         map_of (filter_rows keep df) ''mileage_avg''
           = Some (Number (Float64 (div2 (add_numeric (filter_numeric keep a) (filter_numeric keep b)))))"
  using assms by (simp add: map_of_filter_rows mean_filter)

lemma apply_filters_average:
  assumes "apply_filters s df = Some df'"
    and "map_of df ''mileage_min'' = Some (Number a)"
    and "map_of df ''mileage_max'' = Some (Number b)"
    and "map_of df ''mileage_avg'' = Some (Number (Float64 (div2 (add_numeric a b))))"
  shows "\<exists>a' b'. map_of df' ''mileage_min'' = Some (Number a') \<and>
                 map_of df' ''mileage_max'' = Some (Number b') \<and>
                 map_of df' ''mileage_avg'' = Some (Number (Float64 (div2 (add_numeric a' b'))))"
proof -
  from assms(1) have "\<exists>k1. df' = filter_rows k1 df \<or> (\<exists>k2. df' = filter_rows k2 (filter_rows k1 df))"
    by (auto simp: apply_filters_def Let_def split: option.splits column.splits if_splits)
  then obtain k1 where d: "df' = filter_rows k1 df \<or> (\<exists>k2. df' = filter_rows k2 (filter_rows k1 df))"
    by blast
  note f1 = filter_rows_average[OF assms(2-4), of k1]
  from d show ?thesis
  proof
    assume "df' = filter_rows k1 df"
    with f1 show ?thesis by blast
  next
    assume "\<exists>k2. df' = filter_rows k2 (filter_rows k1 df)"
    then obtain k2 where d2: "df' = filter_rows k2 (filter_rows k1 df)" by blast
    from filter_rows_average[OF conjunct1[OF f1] conjunct1[OF conjunct2[OF f1]]
        conjunct2[OF conjunct2[OF f1]], of k2]
    show ?thesis unfolding d2 by blast
  qed
qed

lemma render_market_overview_frame:
  assumes "render_market_overview u df vehicle_type = Some df'"
    and "c \<noteq> ''price_segment''" and "c \<noteq> ''fuel_type''"
  shows "map_of df' c = map_of df c"
  using assms
  by (auto simp: render_market_overview_def render_car_features_def Let_def update_conv'
      split: option.splits column.splits if_splits)

lemma render_market_overview_fuel:
  assumes "render_market_overview u df ''car'' = Some df'"
  shows "\<exists>xs. map_of df' ''fuel_type'' = Some (Text (map (map_option (str_lower u)) xs))"
  using assms
  by (auto simp: render_market_overview_def render_car_features_def Let_def update_conv'
      split: option.splits column.splits if_splits)

lemma render_price_analysis_frame:
  assumes "render_price_analysis u df vehicle_type = Some df'" and "c \<noteq> ''mileage_bin''"
  shows "map_of df' c = map_of df c"
  using assms
  by (auto simp: render_price_analysis_def render_mileage_analysis_def Let_def update_conv'
      split: option.splits column.splits if_splits)

lemma render_regional_analysis_frame:
  assumes "render_regional_analysis u df vehicle_type = Some df'" and "c \<noteq> ''location''"
  shows "map_of df' c = map_of df c"
  using assms
  by (auto simp: render_regional_analysis_def Let_def update_conv'
      split: option.splits column.splits if_splits)

subsection \<open>The average of two readings\<close>

lemma length_values_of: "length (values_of a) = length (as_float64 a)"
  by (cases a) (simp_all add: values_of_def)

lemma as_float64_nan:
  "i < length (as_float64 a) \<Longrightarrow> values_of a ! i = NotANumber \<Longrightarrow> as_float64 a ! i = NotANumber"
  by (cases a) (simp_all add: values_of_def)

lemma as_float64_whole:
  "i < length (as_float64 a) \<Longrightarrow> values_of a ! i = Finite (of_int m) \<Longrightarrow> \<bar>m\<bar> < 2 ^ 53 \<Longrightarrow>
   as_float64 a ! i = Finite (of_int m)"
  by (cases a) (simp_all add: values_of_def int64_to_float_def round64_int)

lemma length_mean: "length (div2 (add_numeric a b)) = min (length (as_float64 a)) (length (as_float64 b))"
  by (cases a; cases b) (simp_all add: div2_def)

lemma sint_add_small:
  fixes x y :: "64 word"
  assumes "sint x = m" "sint y = n" "0 \<le> m" "m < 2 ^ 52" "0 \<le> n" "n < 2 ^ 52"
  shows "sint (x + y) = m + n"
  using assms by (simp add: sint_word_ariths signed_take_bit_int_eq_self)

lemma float_add_nan: "float_add x NotANumber = NotANumber"
  by (cases x) simp_all

lemma mean_missing:
  assumes "i < length (div2 (add_numeric a b))"
    and "values_of a ! i = NotANumber \<or> values_of b ! i = NotANumber"
  shows "div2 (add_numeric a b) ! i = NotANumber"
proof -
  from assms(1) have la: "i < length (as_float64 a)" and lb: "i < length (as_float64 b)"
    by (simp_all add: length_mean)
  from assms(2) la lb have n: "as_float64 a ! i = NotANumber \<or> as_float64 b ! i = NotANumber"
    using as_float64_nan by blast
  have "\<not> (\<exists>xs ys. a = Int64 xs \<and> b = Int64 ys)"
    using assms(2) la lb by (auto simp: values_of_def)
  then have "add_numeric a b = Float64 (map2 float_add (as_float64 a) (as_float64 b))"
    by (cases a; cases b) simp_all
  then have "div2 (add_numeric a b) ! i = halve (float_add (as_float64 a ! i) (as_float64 b ! i))"
    using la lb by (simp add: div2_def)
  with n show ?thesis by (auto simp: float_add_nan)
qed

lemma halve_sum:
  assumes "0 \<le> m" "m < 2 ^ 52" "0 \<le> n" "n < 2 ^ 52"
  shows "halve (float_add (Finite (of_int m)) (Finite (of_int n)))
           = Finite ((of_int m + of_int n) / 2)"
proof -
  have k: "\<bar>m + n\<bar> < 2 ^ 53" using assms by simp
  have "float_add (Finite (of_int m)) (Finite (of_int n)) = round64 (of_int (m + n))" by simp
  also have "\<dots> = Finite (of_int (m + n))" by (rule round64_int[OF k])
  finally have "halve (float_add (Finite (of_int m)) (Finite (of_int n)))
                  = round64 (of_int (m + n) / 2)" by simp
  also have "\<dots> = Finite (of_int (m + n) / 2)" by (rule round64_half[OF k])
  finally show ?thesis by simp
qed

lemma mean_whole:
  assumes "i < length (div2 (add_numeric a b))"
    and "values_of a ! i = Finite (of_int m)" and "values_of b ! i = Finite (of_int n)"
    and "0 \<le> m" "m < 2 ^ 52" "0 \<le> n" "n < 2 ^ 52"
  shows "div2 (add_numeric a b) ! i = Finite ((of_int m + of_int n) / 2)"
proof -
  from assms(1) have la: "i < length (as_float64 a)" and lb: "i < length (as_float64 b)"
    by (simp_all add: length_mean)
  have m: "\<bar>m\<bar> < 2 ^ 53" and n: "\<bar>n\<bar> < 2 ^ 53" using assms(4-7) by simp_all
  note fa = as_float64_whole[OF la assms(2) m]
  note fb = as_float64_whole[OF lb assms(3) n]
  show ?thesis
  proof (cases "\<exists>xs ys. a = Int64 xs \<and> b = Int64 ys")
    case True
    then obtain xs ys where a: "a = Int64 xs" and b: "b = Int64 ys" by blast
    have "values_of a ! i = Finite (real_of_int (sint (xs ! i)))"
      using a la by (simp add: values_of_def)
    with assms(2) have "Finite (real_of_int (sint (xs ! i))) = Finite (real_of_int m)"
      by (simp only:)
    then have sx: "sint (xs ! i) = m" by (simp only: float.inject of_int_eq_iff)
    have "values_of b ! i = Finite (real_of_int (sint (ys ! i)))"
      using b lb by (simp add: values_of_def)
    with assms(3) have "Finite (real_of_int (sint (ys ! i))) = Finite (real_of_int n)"
      by (simp only:)
    then have sy: "sint (ys ! i) = n" by (simp only: float.inject of_int_eq_iff)
    have s: "sint (xs ! i + ys ! i) = m + n" by (rule sint_add_small[OF sx sy assms(4-7)])
    have k: "\<bar>m + n\<bar> < 2 ^ 53" using assms(4-7) by simp
    have "div2 (add_numeric a b) ! i = halve (int64_to_float (xs ! i + ys ! i))"
      using a b la lb by (simp add: div2_def)
    also have "\<dots> = halve (Finite (of_int (m + n)))"
      unfolding int64_to_float_def s by (simp only: round64_int[OF k])
    also have "\<dots> = round64 (of_int (m + n) / 2)" by simp
    also have "\<dots> = Finite (of_int (m + n) / 2)" by (rule round64_half[OF k])
    finally show ?thesis by simp
  next
    case False
    then have "add_numeric a b = Float64 (map2 float_add (as_float64 a) (as_float64 b))"
      by (cases a; cases b) simp_all
    then have "div2 (add_numeric a b) ! i = halve (float_add (as_float64 a ! i) (as_float64 b ! i))"
      using la lb by (simp add: div2_def)
    then show ?thesis unfolding fa fb by (simp only: halve_sum[OF assms(4-7)])
  qed
qed

text \<open>
  C9. Take an export that has both odometer columns, and a run for cars that reaches the
  price prediction page. In the working table handed to that page \<^verbatim>\<open>mileage_min\<close> and
  \<^verbatim>\<open>mileage_max\<close> are numeric columns and \<^verbatim>\<open>mileage_avg\<close> is the column
  \<^verbatim>\<open>(mileage_min + mileage_max) / 2\<close> computed from them, with a sum of two \<^verbatim>\<open>int64\<close>
  columns that wraps and binary64 operations that round. For every listing: when either
  reading is NaN, as it is for an empty cell or text that is no number, the average is
  NaN and so not a number that is at least 0; when both readings are whole numbers from
  0 to below \<open>2 ^ 52\<close>, the average is exactly half their sum. \<^verbatim>\<open>fuel_type\<close> is the column
  the market overview page wrote: every cell is missing or \<^verbatim>\<open>str.lower\<close> of a string.
\<close>

theorem working_table_listings:
  assumes "main u s parse current_year (Some raw) ''car'' = Some df"
    and "map_of raw ''mileage_min'' \<noteq> None" and "map_of raw ''mileage_max'' \<noteq> None"
  shows "\<exists>a b xs.
           map_of df ''mileage_min'' = Some (Number a) \<and>
           map_of df ''mileage_max'' = Some (Number b) \<and>
           map_of df ''mileage_avg'' = Some (Number (Float64 (div2 (add_numeric a b)))) \<and>
           (\<forall>i < length (div2 (add_numeric a b)).
              (values_of a ! i = NotANumber \<or> values_of b ! i = NotANumber
                 \<longrightarrow> div2 (add_numeric a b) ! i = NotANumber) \<and>
              (\<forall>m n. values_of a ! i = Finite (of_int m) \<and> values_of b ! i = Finite (of_int n) \<and>
                     0 \<le> m \<and> m < 2 ^ 52 \<and> 0 \<le> n \<and> n < 2 ^ 52
                 \<longrightarrow> div2 (add_numeric a b) ! i = Finite ((of_int m + of_int n) / 2))) \<and>
           map_of df ''fuel_type'' = Some (Text (map (map_option (str_lower u)) xs))"
proof -
  let ?loaded = "load_car_data parse current_year (Some raw)"
  from assms(1) obtain filtered_df df1 df2 where
    ne: "\<not> table_empty ?loaded" and
    f: "apply_filters s ?loaded = Some filtered_df" and
    m: "render_market_overview u filtered_df ''car'' = Some df1" and
    p: "render_price_analysis u df1 ''car'' = Some df2" and
    r: "render_regional_analysis u df2 ''car'' = Some df"
    by (auto simp: main_def Let_def split: if_splits option.splits Option.bind_splits)
  from ne have ne': "?loaded \<noteq> []" by (auto simp: table_empty_def)
  from assms(2,3) obtain lo hi where
    "map_of raw ''mileage_min'' = Some lo" "map_of raw ''mileage_max'' = Some hi" by auto
  from load_car_data_average[OF refl ne' this] obtain a0 b0 where
    "map_of ?loaded ''mileage_min'' = Some (Number a0)"
    "map_of ?loaded ''mileage_max'' = Some (Number b0)"
    "map_of ?loaded ''mileage_avg'' = Some (Number (Float64 (div2 (add_numeric a0 b0))))"
    by blast
  from apply_filters_average[OF f this] obtain a b where
    ab: "map_of filtered_df ''mileage_min'' = Some (Number a)"
        "map_of filtered_df ''mileage_max'' = Some (Number b)"
        "map_of filtered_df ''mileage_avg'' = Some (Number (Float64 (div2 (add_numeric a b))))"
    by blast
  have keep: "map_of df c = map_of filtered_df c"
    if "c \<noteq> ''price_segment''" "c \<noteq> ''fuel_type''" "c \<noteq> ''mileage_bin''" "c \<noteq> ''location''" for c
    using render_regional_analysis_frame[OF r that(4)] render_price_analysis_frame[OF p that(3)]
      render_market_overview_frame[OF m that(1,2)] by simp
  from render_market_overview_fuel[OF m] obtain xs where
    "map_of df1 ''fuel_type'' = Some (Text (map (map_option (str_lower u)) xs))" by blast
  then have fuel: "map_of df ''fuel_type'' = Some (Text (map (map_option (str_lower u)) xs))"
    using render_regional_analysis_frame[OF r, of "''fuel_type''"]
      render_price_analysis_frame[OF p, of "''fuel_type''"] by simp
  have "map_of df ''mileage_min'' = Some (Number a)" using keep[of "''mileage_min''"] ab by simp
  moreover have "map_of df ''mileage_max'' = Some (Number b)" using keep[of "''mileage_max''"] ab by simp
  moreover have "map_of df ''mileage_avg'' = Some (Number (Float64 (div2 (add_numeric a b))))"
    using keep[of "''mileage_avg''"] ab by simp
  moreover have "\<forall>i < length (div2 (add_numeric a b)).
              (values_of a ! i = NotANumber \<or> values_of b ! i = NotANumber
                 \<longrightarrow> div2 (add_numeric a b) ! i = NotANumber) \<and>
              (\<forall>m n. values_of a ! i = Finite (of_int m) \<and> values_of b ! i = Finite (of_int n) \<and>
                     0 \<le> m \<and> m < 2 ^ 52 \<and> 0 \<le> n \<and> n < 2 ^ 52
                 \<longrightarrow> div2 (add_numeric a b) ! i = Finite ((of_int m + of_int n) / 2))"
    using mean_missing[of _ a b] mean_whole[of _ a b] by blast
  ultimately show ?thesis using fuel by blast
qed

theorem working_table_listings_witness:
  "main browser all_listings parse_digits 2025 (Some exported_cars) ''car'' = Some working_cars \<and>
   map_of exported_cars ''mileage_min'' = Some (Text [Some ''50000'', Some ''80000'', Some ''unknown'']) \<and>
   map_of exported_cars ''mileage_max'' = Some (Number (Int64 [70000, 100000, 40000])) \<and>
   map_of working_cars ''mileage_min''
     = Some (Number (Float64 [Finite 50000, Finite 80000, NotANumber])) \<and>
   map_of working_cars ''mileage_max'' = Some (Number (Int64 [70000, 100000, 40000])) \<and>
   div2 (add_numeric (Float64 [Finite 50000, Finite 80000, NotANumber]) (Int64 [70000, 100000, 40000]))
     = [Finite 60000, Finite 90000, NotANumber] \<and>
   map_of working_cars ''fuel_type'' = Some (Text [Some ''petrol'', Some ''diesel'', Some ''petrol''])"
proof -
  have h: "main browser all_listings parse_digits 2025 (Some exported_cars) ''car'' = Some working_cars"
    by code_simp
  have lo: "map_of exported_cars ''mileage_min'' = Some (Text [Some ''50000'', Some ''80000'', Some ''unknown''])"
    by (simp add: exported_cars_def)
  have hi: "map_of exported_cars ''mileage_max'' = Some (Number (Int64 [70000, 100000, 40000]))"
    by (simp add: exported_cars_def)
  have w: "map_of working_cars ''mileage_min''
             = Some (Number (Float64 [Finite 50000, Finite 80000, NotANumber]))"
    "map_of working_cars ''mileage_max'' = Some (Number (Int64 [70000, 100000, 40000]))"
    "map_of working_cars ''mileage_avg''
       = Some (Number (Float64 [Finite 60000, Finite 90000, NotANumber]))"
    "map_of working_cars ''fuel_type'' = Some (Text [Some ''petrol'', Some ''diesel'', Some ''petrol''])"
    by (simp_all add: working_cars_def)
  from working_table_listings[OF h] lo hi obtain a b where
    "map_of working_cars ''mileage_min'' = Some (Number a)"
    "map_of working_cars ''mileage_max'' = Some (Number b)"
    "map_of working_cars ''mileage_avg'' = Some (Number (Float64 (div2 (add_numeric a b))))"
    by auto
  with w have "div2 (add_numeric (Float64 [Finite 50000, Finite 80000, NotANumber])
                  (Int64 [70000, 100000, 40000])) = [Finite 60000, Finite 90000, NotANumber]"
    by simp
  with h lo hi w show ?thesis by simp
qed

theorem working_table_mileage_counterexample:
  "main browser all_listings parse_digits 2025 (Some exported_unmetered) ''car''
     = Some working_unmetered \<and>
   map_of working_unmetered ''mileage_avg'' = Some (Number (Float64 [Finite 60000, NotANumber])) \<and>
   \<not> float_le (Finite 0) NotANumber"
proof -
  have "main browser all_listings parse_digits 2025 (Some exported_unmetered) ''car''
          = Some working_unmetered"
    by code_simp
  then show ?thesis by (simp add: working_unmetered_def)
qed

end
